theory Spec2Isabelle
  imports Complex_Main
begin

section \<open>The browser as an environment\<close>

text \<open>
  The six scripts under \<^verbatim>\<open>verification/\<close> drive a headless browser through the
  Playwright API.  Each script is straight-line code inside
  \<^verbatim>\<open>with sync_playwright() as p:\<close>, some of it wrapped in
  \<^verbatim>\<open>try/except Exception/finally\<close>.  The browser is not part of the repository, so it
  is a parameter of the model: an environment that says, for each statement a run
  reaches, whether it raises and what it raises, what a bounding-box query returns and
  which picture a screenshot takes.  Every statement may raise: an API call, a
  \<^verbatim>\<open>print\<close> (standard output may refuse the line) and a \<^verbatim>\<open>time.sleep\<close> (it may be
  interrupted).
\<close>

text \<open>What is raised.  \<^verbatim>\<open>Exception msg\<close> stands for an instance of \<^verbatim>\<open>Exception\<close> or
  of one of its subclasses (the errors of the API, \<^verbatim>\<open>OSError\<close>), with \<open>msg\<close> what
  \<^verbatim>\<open>f"{e}"\<close> prints.  \<^verbatim>\<open>KeyboardInterrupt\<close> and \<^verbatim>\<open>SystemExit\<close> derive from
  \<^verbatim>\<open>BaseException\<close> only: \<^verbatim>\<open>except Exception\<close> does not catch them.\<close>

datatype exn = Exception string | KeyboardInterrupt | SystemExit nat

type_synonym image = nat

text \<open>The dictionary returned by \<^verbatim>\<open>bounding_box()\<close>; pixel coordinates are floats in
  the source and reals here.\<close>

record box =
  box_x :: real
  box_y :: real
  box_width :: real
  box_height :: real

text \<open>What \<^verbatim>\<open>page.locator(sel)\<close> and \<^verbatim>\<open>page.get_by_text(t)\<close> return.\<close>

datatype handle = BySelector string | ByText string

text \<open>The statements that reach outside the script: the API calls, and
  \<^verbatim>\<open>time.sleep\<close> and \<^verbatim>\<open>print\<close>.\<close>

datatype call =
    PlaywrightStart
  | PlaywrightStop
  | Launch bool
  | NewContext nat nat
  | NewPage
  | ContextNewPage
  | Goto string "nat option"
  | WaitForSelector string "string option" "nat option"
  | Click string
  | Locator string
  | GetByText string
  | HandleClick handle
  | BoundingBox handle
  | MouseClick real real
  | SelectOption string string
  | Fill string string
  | Screenshot string
  | BrowserClose
  | TimeSleep nat
  | PrintLine string

text \<open>What a run does, in order: the API calls it makes, its sleeps (in milliseconds)
  and its calls of \<^verbatim>\<open>print\<close>, each recorded whether or not it raises.\<close>

datatype event = Call call | Sleep nat | Print string

text \<open>The state of a run: its trace, the files on disk, the number of API calls made
  so far, and the browser processes: how many are open, and how many have been
  closed.\<close>

record state =
  trace :: "event list"
  files :: "(string \<times> image) list"
  ncalls :: nat
  open_browsers :: nat
  closed_browsers :: nat

text \<open>The environment decides by the number of API calls made so far and by the
  statement reached.  \<open>flush_fails\<close>: standard output cannot be flushed when the
  interpreter exits.\<close>

record env =
  raises :: "nat \<Rightarrow> call \<Rightarrow> exn option"
  bbox :: "nat \<Rightarrow> handle \<Rightarrow> box option"
  render :: "nat \<Rightarrow> image"
  flush_fails :: bool

type_synonym 'a prog = "env \<Rightarrow> state \<Rightarrow> (exn + 'a) \<times> state"

definition start :: "(string \<times> image) list \<Rightarrow> state" where
  "start fs = \<lparr>trace = [], files = fs, ncalls = 0, open_browsers = 0, closed_browsers = 0\<rparr>"

section \<open>Statements\<close>

definition tick :: "call \<Rightarrow> state \<Rightarrow> state" where
  "tick c s = s\<lparr>trace := trace s @ [Call c], ncalls := ncalls s + 1\<rparr>"

definition api_call :: "call \<Rightarrow> unit prog" where
  "api_call c e s =
     (case raises e (ncalls s) c of
        Some x \<Rightarrow> (Inl x, tick c s)
      | None \<Rightarrow> (Inr (), tick c s))"

definition api_value :: "call \<Rightarrow> 'a \<Rightarrow> 'a prog" where
  "api_value c v e s =
     (case raises e (ncalls s) c of
        Some x \<Rightarrow> (Inl x, tick c s)
      | None \<Rightarrow> (Inr v, tick c s))"

definition time_sleep :: "nat \<Rightarrow> unit prog" where
  "time_sleep ms e s =
     (case raises e (ncalls s) (TimeSleep ms) of
        Some x \<Rightarrow> (Inl x, s\<lparr>trace := trace s @ [Sleep ms]\<rparr>)
      | None \<Rightarrow> (Inr (), s\<lparr>trace := trace s @ [Sleep ms]\<rparr>))"

definition py_print :: "string \<Rightarrow> unit prog" where
  "py_print msg e s =
     (case raises e (ncalls s) (PrintLine msg) of
        Some x \<Rightarrow> (Inl x, s\<lparr>trace := trace s @ [Print msg]\<rparr>)
      | None \<Rightarrow> (Inr (), s\<lparr>trace := trace s @ [Print msg]\<rparr>))"

text \<open>Modelled from the spec: what \<^verbatim>\<open>page.screenshot(path=...)\<close> does to the file
  system is done by Playwright, whose code is not in the repository.  The spec (4.5):
  capture "writes it to the given path, overwriting any existing file at that path".
  The file system is a list of named files, so that a second file under one name would
  be visible.\<close>

definition write_file :: "string \<Rightarrow> image \<Rightarrow> (string \<times> image) list \<Rightarrow> (string \<times> image) list" where
  "write_file path img fs = (path, img) # filter (\<lambda>f. fst f \<noteq> path) fs"

definition screenshot :: "string \<Rightarrow> unit prog" where
  "screenshot path e s =
     (case raises e (ncalls s) (Screenshot path) of
        Some x \<Rightarrow> (Inl x, tick (Screenshot path) s)
      | None \<Rightarrow>
          (Inr (), (tick (Screenshot path) s)
                     \<lparr>files := write_file path (render e (ncalls s)) (files s)\<rparr>))"

definition bounding_box :: "handle \<Rightarrow> box option prog" where
  "bounding_box h e s =
     (case raises e (ncalls s) (BoundingBox h) of
        Some x \<Rightarrow> (Inl x, tick (BoundingBox h) s)
      | None \<Rightarrow> (Inr (bbox e (ncalls s) h), tick (BoundingBox h) s))"

text \<open>Modelled from the spec: what launching a browser, \<^verbatim>\<open>browser.close()\<close> and
  leaving \<^verbatim>\<open>with sync_playwright()\<close> do to the browser process is done by Playwright,
  whose code is not in the repository.  The spec (4.6): the session manager "acquires
  browser + context + page" and "guarantees the browser process and all handles are
  released on every exit path".  A launch that returns has opened a browser; a
  \<^verbatim>\<open>browser.close()\<close> that returns has closed one; leaving the context manager closes
  every browser that is still open, whether or not leaving raises.\<close>

definition launch :: "bool \<Rightarrow> unit prog" where
  "launch headless e s =
     (case raises e (ncalls s) (Launch headless) of
        Some x \<Rightarrow> (Inl x, tick (Launch headless) s)
      | None \<Rightarrow>
          (Inr (), (tick (Launch headless) s)\<lparr>open_browsers := open_browsers s + 1\<rparr>))"

definition browser_close :: "unit prog" where
  "browser_close e s =
     (case raises e (ncalls s) BrowserClose of
        Some x \<Rightarrow> (Inl x, tick BrowserClose s)
      | None \<Rightarrow>
          (Inr (),
           if open_browsers s = 0 then tick BrowserClose s
           else (tick BrowserClose s)
                  \<lparr>open_browsers := open_browsers s - 1,
                   closed_browsers := closed_browsers s + 1\<rparr>))"

definition playwright_stop :: "unit prog" where
  "playwright_stop e s =
     (case raises e (ncalls s) PlaywrightStop of
        Some x \<Rightarrow>
          (Inl x, (tick PlaywrightStop s)
                    \<lparr>open_browsers := 0,
                     closed_browsers := closed_browsers s + open_browsers s\<rparr>)
      | None \<Rightarrow>
          (Inr (), (tick PlaywrightStop s)
                     \<lparr>open_browsers := 0,
                      closed_browsers := closed_browsers s + open_browsers s\<rparr>))"

definition new_context :: "nat \<Rightarrow> nat \<Rightarrow> unit prog" where
  "new_context w h = api_call (NewContext w h)"

definition new_page :: "unit prog" where
  "new_page = api_call NewPage"

definition context_new_page :: "unit prog" where
  "context_new_page = api_call ContextNewPage"

definition goto :: "string \<Rightarrow> nat option \<Rightarrow> unit prog" where
  "goto url timeout = api_call (Goto url timeout)"

definition wait_for_selector :: "string \<Rightarrow> string option \<Rightarrow> nat option \<Rightarrow> unit prog" where
  "wait_for_selector sel st timeout = api_call (WaitForSelector sel st timeout)"

definition click :: "string \<Rightarrow> unit prog" where
  "click sel = api_call (Click sel)"

definition locator :: "string \<Rightarrow> handle prog" where
  "locator sel = api_value (Locator sel) (BySelector sel)"

definition get_by_text :: "string \<Rightarrow> handle prog" where
  "get_by_text t = api_value (GetByText t) (ByText t)"

definition handle_click :: "handle \<Rightarrow> unit prog" where
  "handle_click h = api_call (HandleClick h)"

definition mouse_click :: "real \<Rightarrow> real \<Rightarrow> unit prog" where
  "mouse_click x y = api_call (MouseClick x y)"

definition select_option :: "string \<Rightarrow> string \<Rightarrow> unit prog" where
  "select_option sel v = api_call (SelectOption sel v)"

definition fill :: "string \<Rightarrow> string \<Rightarrow> unit prog" where
  "fill sel v = api_call (Fill sel v)"

subsection \<open>Control flow\<close>

text \<open>A block of statements: the first exception ends it.\<close>

fun block :: "unit prog list \<Rightarrow> unit prog" where
  "block [] e s = (Inr (), s)"
| "block (p # ps) e s =
     (case p e s of
        (Inl x, s') \<Rightarrow> (Inl x, s')
      | (Inr _, s') \<Rightarrow> block ps e s')"

text \<open>\<^verbatim>\<open>v = p; rest(v)\<close>\<close>

definition then_with :: "'a prog \<Rightarrow> ('a \<Rightarrow> 'b prog) \<Rightarrow> 'b prog" where
  "then_with p f e s =
     (case p e s of
        (Inl x, s') \<Rightarrow> (Inl x, s')
      | (Inr v, s') \<Rightarrow> f v e s')"

text \<open>\<^verbatim>\<open>try: body  except Exception as e: handler(f"{e}")\<close>: the handler runs for an
  \<^verbatim>\<open>Exception\<close> and is given its message; a \<^verbatim>\<open>KeyboardInterrupt\<close> or a
  \<^verbatim>\<open>SystemExit\<close> passes through.  What the handler raises is not caught.\<close>

definition try_except :: "unit prog \<Rightarrow> (string \<Rightarrow> unit prog) \<Rightarrow> unit prog" where
  "try_except body handler e s =
     (case body e s of
        (Inl (Exception msg), s') \<Rightarrow> handler msg e s'
      | (Inl KeyboardInterrupt, s') \<Rightarrow> (Inl KeyboardInterrupt, s')
      | (Inl (SystemExit n), s') \<Rightarrow> (Inl (SystemExit n), s')
      | (Inr v, s') \<Rightarrow> (Inr v, s'))"

text \<open>\<^verbatim>\<open>try: body  finally: fin\<close>: the final block always runs; an
  exception of its own replaces the outcome of the body.\<close>

definition try_finally :: "unit prog \<Rightarrow> unit prog \<Rightarrow> unit prog" where
  "try_finally body fin e s =
     (case body e s of
        (r, s') \<Rightarrow>
          (case fin e s' of
             (Inl y, s'') \<Rightarrow> (Inl y, s'')
           | (Inr _, s'') \<Rightarrow> (r, s'')))"

definition try_except_finally :: "unit prog \<Rightarrow> (string \<Rightarrow> unit prog) \<Rightarrow> unit prog \<Rightarrow> unit prog" where
  "try_except_finally body handler fin = try_finally (try_except body handler) fin"

text \<open>\<^verbatim>\<open>with sync_playwright() as p: body\<close>: the context manager is entered, and
  left on every way out of the body; leaving does not swallow an exception.\<close>

definition with_playwright :: "unit prog \<Rightarrow> unit prog" where
  "with_playwright body e s =
     (case api_call PlaywrightStart e s of
        (Inl x, s') \<Rightarrow> (Inl x, s')
      | (Inr _, s') \<Rightarrow> try_finally body playwright_stop e s')"

text \<open>The exit status of the process.  When the interpreter cannot flush standard
  output on its way out, the status is 120.  Otherwise it is 0 when the script ran to
  its end, 1 when an \<^verbatim>\<open>Exception\<close> reached the top level, the code of a
  \<^verbatim>\<open>SystemExit\<close>, and for a \<^verbatim>\<open>KeyboardInterrupt\<close> the interpreter ends itself by
  SIGINT, which a shell reports as 130.\<close>

definition exit_status :: "env \<Rightarrow> (exn + unit) \<times> state \<Rightarrow> nat" where
  "exit_status e r =
     (if flush_fails e then 120
      else case fst r of
             Inr _ \<Rightarrow> 0
           | Inl (Exception msg) \<Rightarrow> 1
           | Inl KeyboardInterrupt \<Rightarrow> 130
           | Inl (SystemExit n) \<Rightarrow> n)"

section \<open>The scripts\<close>

definition app_url :: string where
  "app_url = ''http://localhost:5173''"

subsection \<open>verify\_mistakes.py\<close>

definition run_v1 :: "unit prog" where
  "run_v1 = with_playwright (block
     [launch True,
      new_page,
      goto app_url None,
      click ''button[title='Teach Mode']'',
      time_sleep 1000,
      mouse_click 400 400,
      time_sleep 500,
      mouse_click 450 400,
      time_sleep 500,
      mouse_click 400 450,
      time_sleep 500,
      mouse_click 450 450,
      time_sleep 500,
      click ''button[title='Settings']'',
      time_sleep 1000,
      screenshot ''verification/settings_modal.png'',
      click ''button:has-text('Done')'',
      click ''button[title='Previous Mistake (Shift+N)']'',
      time_sleep 1000,
      screenshot ''verification/mistakes_ui.png'',
      browser_close])"

subsection \<open>verify\_mistakes\_v2.py\<close>

definition run_v2 :: "unit prog" where
  "run_v2 = with_playwright (block
     [launch True,
      new_page,
      goto app_url None,
      wait_for_selector ''div.text-2xl'' (Some ''visible'') None,
      click ''button[title='Settings']'',
      time_sleep 1000,
      screenshot ''verification/settings_modal.png'',
      click ''button:has-text('Done')'',
      screenshot ''verification/main_ui.png'',
      browser_close])"

subsection \<open>verify\_mistakes\_v3.py\<close>

definition v3_body :: "unit prog" where
  "v3_body = block
     [goto app_url (Some 60000),
      wait_for_selector ''body'' (Some ''visible'') None,
      wait_for_selector ''text=Ka'' (Some ''visible'') None,
      click ''button[title='Settings']'',
      time_sleep 1000,
      screenshot ''verification/settings_modal.png'',
      click ''button:has-text('Done')'',
      screenshot ''verification/main_ui.png'']"

definition v3_handler :: "string \<Rightarrow> unit prog" where
  "v3_handler x = block
     [py_print (''Error: '' @ x),
      screenshot ''verification/error.png'']"

definition v3_guarded :: "unit prog" where
  "v3_guarded = try_except_finally v3_body v3_handler browser_close"

definition run_v3 :: "unit prog" where
  "run_v3 = with_playwright (block [launch True, new_page, v3_guarded])"

subsection \<open>verify\_mistakes\_v4.py\<close>

definition v4_body :: "unit prog" where
  "v4_body = block
     [goto app_url (Some 60000),
      wait_for_selector ''#root'' (Some ''visible'') None,
      time_sleep 2000,
      screenshot ''verification/early_render.png'']"

definition v4_handler :: "string \<Rightarrow> unit prog" where
  "v4_handler x = block
     [py_print (''Error: '' @ x),
      screenshot ''verification/error.png'']"

definition v4_guarded :: "unit prog" where
  "v4_guarded = try_except_finally v4_body v4_handler browser_close"

definition run_v4 :: "unit prog" where
  "run_v4 = with_playwright (block
     [launch True, new_context 1280 720, context_new_page, v4_guarded])"

subsection \<open>verify\_nav.py\<close>

text \<open>The selector \<^verbatim>\<open>.relative.bg-\[\#DCB35C\]\<close> (the source escapes each backslash).\<close>

definition board_selector :: string where
  "board_selector =
     ''.relative.bg-'' @ CHR 0x5C # ''['' @ CHR 0x5C # ''#DCB35C'' @ CHR 0x5C # '']''"

definition nav_moves :: "box option \<Rightarrow> unit prog" where
  "nav_moves board_box =
     (case board_box of
        None \<Rightarrow> block []
      | Some b \<Rightarrow> block
          [mouse_click (box_x b + 100) (box_y b + 100),
           time_sleep 500,
           mouse_click (box_x b + 200) (box_y b + 100),
           time_sleep 500,
           mouse_click (box_x b + 100) (box_y b + 200),
           time_sleep 500])"

definition nav_body :: "unit prog" where
  "nav_body = block
     [goto app_url None,
      wait_for_selector board_selector None None,
      then_with (locator board_selector) (\<lambda>board.
        then_with (bounding_box board) nav_moves),
      then_with (get_by_text ''Prev'') handle_click,
      time_sleep 500,
      screenshot ''verification/verification.png'',
      py_print ''Screenshot taken'']"

definition nav_handler :: "string \<Rightarrow> unit prog" where
  "nav_handler x = py_print (''Error: '' @ x)"

definition nav_guarded :: "unit prog" where
  "nav_guarded = try_except_finally nav_body nav_handler browser_close"

definition verify_navigation :: "unit prog" where
  "verify_navigation = with_playwright (block
     [launch True, new_page, time_sleep 3000, nav_guarded])"

subsection \<open>verify\_settings.py\<close>

definition settings_body :: "unit prog" where
  \<open>settings_body = block
     [goto app_url None,
      wait_for_selector ''text=Ka'' None (Some 10000),
      then_with (locator ''button[title="Settings"]'') handle_click,
      wait_for_selector ''text=Board Theme'' None None,
      select_option ''select'' ''dark'',
      fill ''input[type="range"]'' ''5'',
      click ''text=Done'',
      mouse_click 500 300,
      time_sleep 500,
      mouse_click 550 300,
      time_sleep 500,
      screenshot ''/home/jules/verification/settings_verification.png'',
      py_print ''Screenshot taken'']\<close>

definition settings_handler :: "string \<Rightarrow> unit prog" where
  "settings_handler x = py_print (''Error in verify_settings: '' @ x)"

definition verify_settings :: "unit prog" where
  "verify_settings = try_except settings_body settings_handler"

definition main_handler :: "string \<Rightarrow> unit prog" where
  "main_handler x = py_print (''Error: '' @ x)"

definition settings_main :: "unit prog" where
  "settings_main = with_playwright (block
     [launch True, new_page,
      try_except_finally verify_settings main_handler browser_close])"

section \<open>Observations\<close>

text \<open>The paths of the screenshot calls of a trace, in order.\<close>

fun shots :: "event list \<Rightarrow> string list" where
  "shots [] = []"
| "shots (Call (Screenshot path) # evs) = path # shots evs"
| "shots (_ # evs) = shots evs"

text \<open>How many times \<^verbatim>\<open>browser.close()\<close> was called.\<close>

fun closes :: "event list \<Rightarrow> nat" where
  "closes [] = 0"
| "closes (Call BrowserClose # evs) = Suc (closes evs)"
| "closes (_ # evs) = closes evs"


text \<open>The directory part of a path: what stands before its last slash.\<close>

definition dir_of :: "string \<Rightarrow> string" where
  "dir_of path = rev (drop 1 (dropWhile (\<lambda>c. c \<noteq> CHR ''/'') (rev path)))"

text \<open>The files stored under a path.\<close>

definition files_at :: "string \<Rightarrow> (string \<times> image) list \<Rightarrow> image list" where
  "files_at path fs = map snd (filter (\<lambda>f. fst f = path) fs)"

text \<open>How many coordinate clicks were made.\<close>

fun mouse_clicks :: "event list \<Rightarrow> nat" where
  "mouse_clicks [] = 0"
| "mouse_clicks (Call (MouseClick x y) # evs) = Suc (mouse_clicks evs)"
| "mouse_clicks (_ # evs) = mouse_clicks evs"

text \<open>Against the browser \<open>e\<close>, a statement emits only events of a kind \<open>Q\<close>: from
  any state, running it appends events to the trace, all of them in \<open>Q\<close>.\<close>

definition emits :: "env \<Rightarrow> (event \<Rightarrow> bool) \<Rightarrow> 'a prog \<Rightarrow> bool" where
  "emits e Q p = (\<forall>s. \<exists>evs. trace (snd (p e s)) = trace s @ evs \<and> list_all Q evs)"

fun shot_in :: "string set \<Rightarrow> event \<Rightarrow> bool" where
  "shot_in S (Call (Screenshot path)) = (path \<in> S)"
| "shot_in S _ = True"

fun no_mouse :: "event \<Rightarrow> bool" where
  "no_mouse (Call (MouseClick x y)) = False"
| "no_mouse _ = True"

fun not_close :: "event \<Rightarrow> bool" where
  "not_close (Call BrowserClose) = False"
| "not_close _ = True"





subsection \<open>The steps of a block\<close>

text \<open>The statements of the scripts, one for each event.\<close>

fun perform :: "event \<Rightarrow> unit prog" where
  "perform (Call (Screenshot path)) = screenshot path"
| "perform (Call (Launch headless)) = launch headless"
| "perform (Call BrowserClose) = browser_close"
| "perform (Call PlaywrightStop) = playwright_stop"
| "perform (Call c) = api_call c"
| "perform (Sleep ms) = time_sleep ms"
| "perform (Print msg) = py_print msg"

text \<open>What the environment is asked when a statement is reached.\<close>

fun key_of :: "event \<Rightarrow> call" where
  "key_of (Call c) = c"
| "key_of (Sleep ms) = TimeSleep ms"
| "key_of (Print msg) = PrintLine msg"

fun calls_in :: "event list \<Rightarrow> nat" where
  "calls_in [] = 0"
| "calls_in (Call c # evs) = Suc (calls_in evs)"
| "calls_in (_ # evs) = calls_in evs"

text \<open>The statements of the four \<^verbatim>\<open>try\<close> blocks, in the order of the source.\<close>

definition v3_steps :: "event list" where
  "v3_steps =
     [Call (Goto app_url (Some 60000)),
      Call (WaitForSelector ''body'' (Some ''visible'') None),
      Call (WaitForSelector ''text=Ka'' (Some ''visible'') None),
      Call (Click ''button[title='Settings']''),
      Sleep 1000,
      Call (Screenshot ''verification/settings_modal.png''),
      Call (Click ''button:has-text('Done')''),
      Call (Screenshot ''verification/main_ui.png'')]"

definition v4_steps :: "event list" where
  "v4_steps =
     [Call (Goto app_url (Some 60000)),
      Call (WaitForSelector ''#root'' (Some ''visible'') None),
      Sleep 2000,
      Call (Screenshot ''verification/early_render.png'')]"

definition nav_move_steps :: "box option \<Rightarrow> event list" where
  "nav_move_steps board_box =
     (case board_box of
        None \<Rightarrow> []
      | Some b \<Rightarrow>
          [Call (MouseClick (box_x b + 100) (box_y b + 100)), Sleep 500,
           Call (MouseClick (box_x b + 200) (box_y b + 100)), Sleep 500,
           Call (MouseClick (box_x b + 100) (box_y b + 200)), Sleep 500])"

definition nav_steps :: "box option \<Rightarrow> event list" where
  "nav_steps board_box =
     [Call (Goto app_url None),
      Call (WaitForSelector board_selector None None),
      Call (Locator board_selector),
      Call (BoundingBox (BySelector board_selector))] @
     nav_move_steps board_box @
     [Call (GetByText ''Prev''), Call (HandleClick (ByText ''Prev'')), Sleep 500,
      Call (Screenshot ''verification/verification.png''), Print ''Screenshot taken'']"

definition settings_steps :: "event list" where
  \<open>settings_steps =
     [Call (Goto app_url None),
      Call (WaitForSelector ''text=Ka'' None (Some 10000)),
      Call (Locator ''button[title="Settings"]''),
      Call (HandleClick (BySelector ''button[title="Settings"]'')),
      Call (WaitForSelector ''text=Board Theme'' None None),
      Call (SelectOption ''select'' ''dark''),
      Call (Fill ''input[type="range"]'' ''5''),
      Call (Click ''text=Done''),
      Call (MouseClick 500 300), Sleep 500,
      Call (MouseClick 550 300), Sleep 500,
      Call (Screenshot ''/home/jules/verification/settings_verification.png''),
      Print ''Screenshot taken'']\<close>

text \<open>Running the statements \<open>evs\<close> from the state \<open>s\<close> against the browser \<open>e\<close>,
  statement \<open>n\<close> (counted from 0) is reached and raises \<open>x\<close>: each statement before
  it returns, at the count of calls it is reached with.\<close>

definition fails_at :: "env \<Rightarrow> state \<Rightarrow> event list \<Rightarrow> nat \<Rightarrow> exn \<Rightarrow> bool" where
  "fails_at e s evs n x =
     (n < length evs \<and>
      list_all (\<lambda>k. raises e (ncalls s + calls_in (take k evs)) (key_of (evs ! k)) = None) [0..<n] \<and>
      raises e (ncalls s + calls_in (take n evs)) (key_of (evs ! n)) = Some x)"

subsection \<open>Conditions on the environment\<close>

text \<open>The calls that set a session up and tear it down never raise.\<close>

definition session_ok :: "env \<Rightarrow> bool" where
  "session_ok e =
     (\<forall>i. raises e i PlaywrightStart = None \<and> raises e i (Launch True) = None \<and>
          raises e i NewPage = None \<and> raises e i (NewContext 1280 720) = None \<and>
          raises e i ContextNewPage = None \<and> raises e i BrowserClose = None \<and>
          raises e i PlaywrightStop = None)"

text \<open>No \<^verbatim>\<open>print\<close> and no \<^verbatim>\<open>time.sleep\<close> raises.\<close>

definition host_ok :: "env \<Rightarrow> bool" where
  "host_ok e = (\<forall>i. (\<forall>msg. raises e i (PrintLine msg) = None) \<and>
                     (\<forall>ms. raises e i (TimeSleep ms) = None))"

text \<open>Whatever is raised is an \<^verbatim>\<open>Exception\<close>.\<close>

definition is_exception :: "exn option \<Rightarrow> bool" where
  "is_exception r = (case r of Some KeyboardInterrupt \<Rightarrow> False | Some (SystemExit n) \<Rightarrow> False | _ \<Rightarrow> True)"

definition only_exceptions :: "env \<Rightarrow> bool" where
  "only_exceptions e = (\<forall>i c. is_exception (raises e i c))"

text \<open>A statement is mild against the browser \<open>e\<close> when it ends, from any state, by
  returning or by raising an \<^verbatim>\<open>Exception\<close>; it returns when it always ends by
  returning.\<close>

definition mild_result :: "(exn + 'a) \<Rightarrow> bool" where
  "mild_result r = (case r of Inl KeyboardInterrupt \<Rightarrow> False | Inl (SystemExit n) \<Rightarrow> False | _ \<Rightarrow> True)"

definition mild :: "env \<Rightarrow> 'a prog \<Rightarrow> bool" where
  "mild e p = (\<forall>s. mild_result (fst (p e s)))"

definition returns :: "env \<Rightarrow> 'a prog \<Rightarrow> bool" where
  "returns e p = (\<forall>s. \<exists>v. fst (p e s) = Inr v)"

section \<open>The settings scenario as the specification words it\<close>

text \<open>The specification's end-to-end scenario (section 8), step by step: navigate to
  the target URL, wait up to 10000 ms for an element with attribute title="Settings",
  click it, wait up to 5000 ms for the page text "Board Theme", select option "dark" on
  the first select control, click the "Done" text control, capture
  "settings_verification.png".\<close>

definition spec_settings_sequence :: "event list" where
  \<open>spec_settings_sequence =
     [Call (Goto app_url None),
      Call (WaitForSelector ''[title="Settings"]'' None (Some 10000)),
      Call (Click ''[title="Settings"]''),
      Call (WaitForSelector ''text=Board Theme'' None (Some 5000)),
      Call (SelectOption ''select'' ''dark''),
      Call (Click ''text=Done''),
      Call (Screenshot ''settings_verification.png'')]\<close>

section \<open>Environments\<close>

text \<open>Every statement succeeds; the board has a bounding box; the picture taken by
  call \<open>i\<close> is \<open>i\<close>; standard output can be flushed.\<close>

definition ok_env :: env where
  "ok_env = \<lparr>raises = (\<lambda>i c. None),
             bbox = (\<lambda>i h. Some \<lparr>box_x = 10, box_y = 20, box_width = 600, box_height = 600\<rparr>),
             render = (\<lambda>i. i),
             flush_fails = False\<rparr>"

text \<open>The call \<open>c\<close> raises an \<^verbatim>\<open>Exception\<close> with message \<open>msg\<close> whenever it is made;
  every other statement succeeds.\<close>

definition fail_on :: "call \<Rightarrow> string \<Rightarrow> env" where
  "fail_on c msg = ok_env\<lparr>raises := (\<lambda>i c'. if c' = c then Some (Exception msg) else None)\<rparr>"

text \<open>Two calls raise.\<close>

definition fail_on2 :: "call \<Rightarrow> string \<Rightarrow> call \<Rightarrow> string \<Rightarrow> env" where
  "fail_on2 c msg d msg' =
     ok_env\<lparr>raises := (\<lambda>i c'. if c' = c then Some (Exception msg)
                               else if c' = d then Some (Exception msg') else None)\<rparr>"

text \<open>Every statement succeeds and the board has no bounding box.\<close>

definition no_box_env :: env where
  "no_box_env = ok_env\<lparr>bbox := (\<lambda>i h. None)\<rparr>"

text \<open>The application does not answer: every navigation raises, every other statement
  succeeds.\<close>

definition unreachable_env :: env where
  "unreachable_env =
     ok_env\<lparr>raises := (\<lambda>i c. case c of
                Goto url t \<Rightarrow> Some (Exception ''net::ERR_CONNECTION_REFUSED'')
              | _ \<Rightarrow> None)\<rparr>"

text \<open>Standard output takes no line (the script runs unbuffered, say with its output
  on a full disk): every \<^verbatim>\<open>print\<close> raises an \<^verbatim>\<open>OSError\<close>, every other statement
  succeeds.\<close>

definition no_stdout_env :: env where
  "no_stdout_env =
     ok_env\<lparr>raises := (\<lambda>i c. case c of
                PrintLine msg \<Rightarrow> Some (Exception ''[Errno 28] No space left on device'')
              | _ \<Rightarrow> None)\<rparr>"

text \<open>The call \<open>c\<close> is interrupted from the keyboard.\<close>

definition interrupt_on :: "call \<Rightarrow> env" where
  "interrupt_on c = ok_env\<lparr>raises := (\<lambda>i c'. if c' = c then Some KeyboardInterrupt else None)\<rparr>"

section \<open>Running statements\<close>

lemmas api_defs = new_context_def new_page_def context_new_page_def goto_def
  wait_for_selector_def click_def locator_def get_by_text_def handle_click_def mouse_click_def
  select_option_def fill_def

lemmas prim_defs = api_call_def api_value_def tick_def time_sleep_def py_print_def
  screenshot_def bounding_box_def write_file_def launch_def browser_close_def
  playwright_stop_def

lemmas ctl_defs = then_with_def try_except_def try_finally_def try_except_finally_def
  with_playwright_def

lemmas env_defs = ok_env_def fail_on_def fail_on2_def no_box_env_def unreachable_env_def
  no_stdout_env_def interrupt_on_def start_def

lemma api_call_ok: "raises e (ncalls s) c = None \<Longrightarrow> api_call c e s = (Inr (), tick c s)"
  by (simp add: api_call_def)

lemma block_Cons_then: "block (p # ps) = then_with p (\<lambda>_. block ps)"
  by (rule ext, rule ext) (simp add: then_with_def split: prod.split sum.split)

lemma with_playwright_then:
  "with_playwright b =
     then_with (api_call PlaywrightStart) (\<lambda>_. try_finally b playwright_stop)"
  by (rule ext, rule ext) (simp add: with_playwright_def then_with_def split: prod.split sum.split)

subsection \<open>What a statement can emit\<close>

lemma emitsI:
  "(\<And>s. \<exists>evs. trace (snd (p e s)) = trace s @ evs \<and> list_all Q evs) \<Longrightarrow> emits e Q p"
  by (simp add: emits_def)

lemma emitsD: "emits e Q p \<Longrightarrow> \<exists>evs. trace (snd (p e s)) = trace s @ evs \<and> list_all Q evs"
  by (simp add: emits_def)

lemma emits_api_call: "Q (Call c) \<Longrightarrow> emits e Q (api_call c)"
  by (rule emitsI) (simp add: api_call_def tick_def split: option.split)

lemma emits_api_value: "Q (Call c) \<Longrightarrow> emits e Q (api_value c v)"
  by (rule emitsI) (simp add: api_value_def tick_def split: option.split)

lemma emits_screenshot: "Q (Call (Screenshot path)) \<Longrightarrow> emits e Q (screenshot path)"
  by (rule emitsI) (simp add: screenshot_def tick_def split: option.split)

lemma emits_bounding_box: "Q (Call (BoundingBox h)) \<Longrightarrow> emits e Q (bounding_box h)"
  by (rule emitsI) (simp add: bounding_box_def tick_def split: option.split)

lemma emits_time_sleep: "Q (Sleep ms) \<Longrightarrow> emits e Q (time_sleep ms)"
  by (rule emitsI) (simp add: time_sleep_def split: option.split)

lemma emits_py_print: "Q (Print msg) \<Longrightarrow> emits e Q (py_print msg)"
  by (rule emitsI) (simp add: py_print_def split: option.split)

lemma emits_launch: "Q (Call (Launch h)) \<Longrightarrow> emits e Q (launch h)"
  by (rule emitsI) (simp add: launch_def tick_def split: option.split)

lemma emits_browser_close: "Q (Call BrowserClose) \<Longrightarrow> emits e Q browser_close"
  by (rule emitsI) (simp add: browser_close_def tick_def split: option.split)

lemma emits_playwright_stop: "Q (Call PlaywrightStop) \<Longrightarrow> emits e Q playwright_stop"
  by (rule emitsI) (simp add: playwright_stop_def tick_def split: option.split)

lemma emits_then_with:
  assumes p: "emits e Q p" and f: "\<And>v. emits e Q (f v)"
  shows "emits e Q (then_with p f)"
proof (rule emitsI)
  fix s
  obtain r s1 where ps: "p e s = (r, s1)" by (cases "p e s")
  from emitsD [OF p, of s] ps obtain evs1
    where t1: "trace s1 = trace s @ evs1" and q1: "list_all Q evs1" by auto
  show "\<exists>evs. trace (snd (then_with p f e s)) = trace s @ evs \<and> list_all Q evs"
  proof (cases r)
    case (Inl x)
    with ps t1 q1 show ?thesis by (simp add: then_with_def)
  next
    case (Inr v)
    from emitsD [OF f, of v s1] obtain evs2
      where "trace (snd (f v e s1)) = trace s1 @ evs2" and "list_all Q evs2" by auto
    with Inr ps t1 q1
    have "trace (snd (then_with p f e s)) = trace s @ (evs1 @ evs2) \<and> list_all Q (evs1 @ evs2)"
      by (simp add: then_with_def)
    then show ?thesis by blast
  qed
qed

lemma emits_block_Nil: "emits e Q (block [])"
  by (rule emitsI) simp

lemma emits_block_Cons: "emits e Q p \<Longrightarrow> emits e Q (block ps) \<Longrightarrow> emits e Q (block (p # ps))"
  by (simp add: block_Cons_then emits_then_with)

lemma emits_try_except:
  assumes b: "emits e Q b" and h: "\<And>x. emits e Q (h x)"
  shows "emits e Q (try_except b h)"
proof (rule emitsI)
  fix s
  obtain r s1 where bs: "b e s = (r, s1)" by (cases "b e s")
  from emitsD [OF b, of s] bs obtain evs1
    where t1: "trace s1 = trace s @ evs1" and q1: "list_all Q evs1" by auto
  show "\<exists>evs. trace (snd (try_except b h e s)) = trace s @ evs \<and> list_all Q evs"
  proof (cases r)
    case (Inr v)
    with bs t1 q1 show ?thesis by (simp add: try_except_def)
  next
    case (Inl x)
    show ?thesis
    proof (cases x)
      case (Exception msg)
      from emitsD [OF h, of msg s1] obtain evs2
        where "trace (snd (h msg e s1)) = trace s1 @ evs2" and "list_all Q evs2" by auto
      with Exception Inl bs t1 q1
      have "trace (snd (try_except b h e s)) = trace s @ (evs1 @ evs2) \<and>
            list_all Q (evs1 @ evs2)"
        by (simp add: try_except_def)
      then show ?thesis by blast
    next
      case KeyboardInterrupt
      with Inl bs t1 q1 show ?thesis by (simp add: try_except_def)
    next
      case (SystemExit n)
      with Inl bs t1 q1 show ?thesis by (simp add: try_except_def)
    qed
  qed
qed

lemma emits_try_finally:
  assumes b: "emits e Q b" and f: "emits e Q fin"
  shows "emits e Q (try_finally b fin)"
proof (rule emitsI)
  fix s
  obtain r s1 where bs: "b e s = (r, s1)" by (cases "b e s")
  obtain r2 s2 where fs: "fin e s1 = (r2, s2)" by (cases "fin e s1")
  from emitsD [OF b, of s] bs obtain evs1
    where t1: "trace s1 = trace s @ evs1" and q1: "list_all Q evs1" by auto
  from emitsD [OF f, of s1] fs obtain evs2
    where t2: "trace s2 = trace s1 @ evs2" and q2: "list_all Q evs2" by auto
  have "trace (snd (try_finally b fin e s)) = trace s @ (evs1 @ evs2) \<and> list_all Q (evs1 @ evs2)"
    using bs fs t1 t2 q1 q2 by (cases r2) (simp_all add: try_finally_def)
  then show "\<exists>evs. trace (snd (try_finally b fin e s)) = trace s @ evs \<and> list_all Q evs"
    by blast
qed

lemma emits_try_except_finally:
  "emits e Q b \<Longrightarrow> (\<And>x. emits e Q (h x)) \<Longrightarrow> emits e Q fin \<Longrightarrow> emits e Q (try_except_finally b h fin)"
  by (simp add: try_except_finally_def emits_try_except emits_try_finally)

lemma emits_with_playwright:
  "Q (Call PlaywrightStart) \<Longrightarrow> Q (Call PlaywrightStop) \<Longrightarrow> emits e Q b \<Longrightarrow>
   emits e Q (with_playwright b)"
  by (simp add: with_playwright_then emits_then_with emits_try_finally emits_api_call
        emits_playwright_stop)

lemma emits_nav_moves:
  "(\<And>x y. Q (Call (MouseClick x y))) \<Longrightarrow> (\<And>ms. Q (Sleep ms)) \<Longrightarrow> emits e Q (nav_moves b)"
  by (cases b)
     (simp_all add: nav_moves_def mouse_click_def emits_block_Nil emits_block_Cons
        emits_api_call emits_time_sleep)

lemmas emits_intros = emits_with_playwright emits_block_Cons emits_block_Nil emits_launch
  emits_browser_close emits_api_call
  emits_api_value emits_screenshot emits_bounding_box emits_time_sleep emits_py_print
  emits_nav_moves emits_then_with emits_try_except_finally emits_try_except emits_try_finally

section \<open>How statements end\<close>

lemma only_exceptionsD:
  "only_exceptions e \<Longrightarrow> raises e i c = Some x \<Longrightarrow> \<exists>m. x = Exception m"
  unfolding only_exceptions_def is_exception_def
  by (cases x) (auto dest!: spec [of _ i] spec [of _ c])

lemma mild_result_simps [simp]:
  "mild_result (Inr v)" "mild_result (Inl (Exception m))"
  "\<not> mild_result (Inl KeyboardInterrupt)" "\<not> mild_result (Inl (SystemExit n))"
  by (simp_all add: mild_result_def)

lemma mildI: "(\<And>s. mild_result (fst (p e s))) \<Longrightarrow> mild e p"
  by (simp add: mild_def)

lemma mildD: "mild e p \<Longrightarrow> mild_result (fst (p e s))"
  by (simp add: mild_def)

lemma mild_api_call: "only_exceptions e \<Longrightarrow> mild e (api_call c)"
  by (rule mildI) (auto simp add: api_call_def split: option.split dest: only_exceptionsD)

lemma mild_api_value: "only_exceptions e \<Longrightarrow> mild e (api_value c v)"
  by (rule mildI) (auto simp add: api_value_def split: option.split dest: only_exceptionsD)

lemma mild_screenshot: "only_exceptions e \<Longrightarrow> mild e (screenshot path)"
  by (rule mildI) (auto simp add: screenshot_def split: option.split dest: only_exceptionsD)

lemma mild_bounding_box: "only_exceptions e \<Longrightarrow> mild e (bounding_box h)"
  by (rule mildI) (auto simp add: bounding_box_def split: option.split dest: only_exceptionsD)

lemma mild_time_sleep: "only_exceptions e \<Longrightarrow> mild e (time_sleep ms)"
  by (rule mildI) (auto simp add: time_sleep_def split: option.split dest: only_exceptionsD)

lemma mild_py_print: "only_exceptions e \<Longrightarrow> mild e (py_print msg)"
  by (rule mildI) (auto simp add: py_print_def split: option.split dest: only_exceptionsD)

lemma mild_launch: "only_exceptions e \<Longrightarrow> mild e (launch h)"
  by (rule mildI) (auto simp add: launch_def split: option.split dest: only_exceptionsD)

lemma mild_browser_close: "only_exceptions e \<Longrightarrow> mild e browser_close"
  by (rule mildI) (auto simp add: browser_close_def split: option.split dest: only_exceptionsD)

lemma mild_playwright_stop: "only_exceptions e \<Longrightarrow> mild e playwright_stop"
  by (rule mildI) (auto simp add: playwright_stop_def split: option.split dest: only_exceptionsD)

lemma mild_then_with:
  assumes "mild e p" and "\<And>v. mild e (f v)"
  shows "mild e (then_with p f)"
proof (rule mildI)
  fix s
  obtain r s1 where ps: "p e s = (r, s1)" by (cases "p e s")
  show "mild_result (fst (then_with p f e s))"
  proof (cases r)
    case (Inl x)
    with ps mildD [OF assms(1), of s] show ?thesis
      by (cases x) (simp_all add: then_with_def)
  next
    case (Inr v)
    with ps mildD [OF assms(2), of v s1] show ?thesis by (simp add: then_with_def)
  qed
qed

lemma mild_block_Nil: "mild e (block [])"
  by (rule mildI) simp

lemma mild_block_Cons: "mild e p \<Longrightarrow> mild e (block ps) \<Longrightarrow> mild e (block (p # ps))"
  by (simp add: block_Cons_then mild_then_with)

lemma mild_try_except:
  assumes "mild e b" and "\<And>x. mild e (h x)"
  shows "mild e (try_except b h)"
proof (rule mildI)
  fix s
  obtain r s1 where bs: "b e s = (r, s1)" by (cases "b e s")
  show "mild_result (fst (try_except b h e s))"
  proof (cases r)
    case (Inr v)
    with bs show ?thesis by (simp add: try_except_def)
  next
    case (Inl x)
    with bs mildD [OF assms(1), of s] mildD [OF assms(2)] show ?thesis
      by (cases x) (simp_all add: try_except_def)
  qed
qed

lemma mild_try_finally:
  assumes "mild e b" and "mild e fin"
  shows "mild e (try_finally b fin)"
proof (rule mildI)
  fix s
  obtain r s1 where bs: "b e s = (r, s1)" by (cases "b e s")
  obtain r2 s2 where fs: "fin e s1 = (r2, s2)" by (cases "fin e s1")
  from bs mildD [OF assms(1), of s] have "mild_result r" by simp
  moreover from fs mildD [OF assms(2), of s1] have "mild_result r2" by simp
  ultimately show "mild_result (fst (try_finally b fin e s))"
    using bs fs by (cases r2) (simp_all add: try_finally_def)
qed

lemma mild_try_except_finally:
  "mild e b \<Longrightarrow> (\<And>x. mild e (h x)) \<Longrightarrow> mild e fin \<Longrightarrow> mild e (try_except_finally b h fin)"
  by (simp add: try_except_finally_def mild_try_except mild_try_finally)

lemma mild_nav_moves: "only_exceptions e \<Longrightarrow> mild e (nav_moves b)"
  by (cases b)
     (simp_all add: nav_moves_def mouse_click_def mild_block_Nil mild_block_Cons
        mild_api_call mild_time_sleep)

lemmas mild_intros = mild_block_Cons mild_block_Nil mild_api_call mild_api_value
  mild_screenshot mild_bounding_box mild_time_sleep mild_py_print mild_launch
  mild_browser_close mild_playwright_stop mild_nav_moves mild_then_with
  mild_try_except_finally mild_try_except mild_try_finally

lemma returnsI: "(\<And>s. \<exists>v. fst (p e s) = Inr v) \<Longrightarrow> returns e p"
  by (simp add: returns_def)

lemma returnsD: "returns e p \<Longrightarrow> \<exists>v. fst (p e s) = Inr v"
  by (simp add: returns_def)

lemma returns_unit: "returns e p \<Longrightarrow> fst (p e s) = Inr ()"
  by (drule returnsD [of e p s]) simp

lemma returns_api_call: "(\<And>i. raises e i c = None) \<Longrightarrow> returns e (api_call c)"
  by (rule returnsI) (simp add: api_call_def)

lemma returns_api_value: "(\<And>i. raises e i c = None) \<Longrightarrow> returns e (api_value c v)"
  by (rule returnsI) (simp add: api_value_def)

lemma returns_screenshot:
  "(\<And>i. raises e i (Screenshot path) = None) \<Longrightarrow> returns e (screenshot path)"
  by (rule returnsI) (simp add: screenshot_def)

lemma returns_bounding_box:
  "(\<And>i. raises e i (BoundingBox h) = None) \<Longrightarrow> returns e (bounding_box h)"
  by (rule returnsI) (simp add: bounding_box_def)

lemma returns_time_sleep:
  "(\<And>i. raises e i (TimeSleep ms) = None) \<Longrightarrow> returns e (time_sleep ms)"
  by (rule returnsI) (simp add: time_sleep_def)

lemma returns_py_print:
  "(\<And>i. raises e i (PrintLine msg) = None) \<Longrightarrow> returns e (py_print msg)"
  by (rule returnsI) (simp add: py_print_def)

lemma returns_launch:
  "(\<And>i. raises e i (Launch h) = None) \<Longrightarrow> returns e (launch h)"
  by (rule returnsI) (simp add: launch_def)

lemma returns_browser_close:
  "(\<And>i. raises e i BrowserClose = None) \<Longrightarrow> returns e browser_close"
  by (rule returnsI) (simp add: browser_close_def)

lemma returns_playwright_stop:
  "(\<And>i. raises e i PlaywrightStop = None) \<Longrightarrow> returns e playwright_stop"
  by (rule returnsI) (simp add: playwright_stop_def)

lemma returns_then_with:
  assumes "returns e p" and "\<And>v. returns e (f v)"
  shows "returns e (then_with p f)"
proof (rule returnsI)
  fix s
  obtain r s1 where ps: "p e s = (r, s1)" by (cases "p e s")
  with returnsD [OF assms(1), of s] obtain v where "r = Inr v" by auto
  with ps returnsD [OF assms(2), of v s1] show "\<exists>v. fst (then_with p f e s) = Inr v"
    by (simp add: then_with_def)
qed

lemma returns_block_Nil: "returns e (block [])"
  by (rule returnsI) simp

lemma returns_block_Cons:
  "returns e p \<Longrightarrow> returns e (block ps) \<Longrightarrow> returns e (block (p # ps))"
  by (simp add: block_Cons_then returns_then_with)

text \<open>A \<^verbatim>\<open>try\<close> whose body is mild and whose handler returns, returns.\<close>

lemma returns_try_except:
  assumes "mild e b" and "\<And>x. returns e (h x)"
  shows "returns e (try_except b h)"
proof (rule returnsI)
  fix s
  obtain r s1 where bs: "b e s = (r, s1)" by (cases "b e s")
  show "\<exists>v. fst (try_except b h e s) = Inr v"
  proof (cases r)
    case (Inr v)
    with bs show ?thesis by (simp add: try_except_def)
  next
    case (Inl x)
    with bs mildD [OF assms(1), of s] returnsD [OF assms(2)] show ?thesis
      by (cases x) (simp_all add: try_except_def)
  qed
qed

lemma returns_try_finally:
  assumes "returns e b" and "returns e fin"
  shows "returns e (try_finally b fin)"
proof (rule returnsI)
  fix s
  obtain r s1 where bs: "b e s = (r, s1)" by (cases "b e s")
  obtain r2 s2 where fs: "fin e s1 = (r2, s2)" by (cases "fin e s1")
  from bs returnsD [OF assms(1), of s] obtain v where "r = Inr v" by auto
  moreover from fs returnsD [OF assms(2), of s1] obtain v2 where "r2 = Inr v2" by auto
  ultimately show "\<exists>v. fst (try_finally b fin e s) = Inr v"
    using bs fs by (simp add: try_finally_def)
qed

lemma returns_try_except_finally:
  "mild e b \<Longrightarrow> (\<And>x. returns e (h x)) \<Longrightarrow> returns e fin \<Longrightarrow>
   returns e (try_except_finally b h fin)"
  by (simp add: try_except_finally_def returns_try_except returns_try_finally)

lemma returns_with_playwright:
  assumes "\<And>i. raises e i PlaywrightStart = None" and "returns e b"
    and "\<And>i. raises e i PlaywrightStop = None"
  shows "returns e (with_playwright b)"
proof (rule returnsI)
  fix s
  have "with_playwright b e s = try_finally b playwright_stop e (tick PlaywrightStart s)"
    using assms(1) by (simp add: with_playwright_def api_call_def)
  with returnsD [OF returns_try_finally [OF assms(2) returns_playwright_stop [OF assms(3)]]]
  show "\<exists>v. fst (with_playwright b e s) = Inr v"
    by simp
qed

lemma returns_nav_moves:
  "(\<And>i c. raises e i c = None) \<Longrightarrow> returns e (nav_moves b)"
  by (cases b)
     (simp_all add: nav_moves_def mouse_click_def returns_block_Nil returns_block_Cons
        returns_api_call returns_time_sleep)

lemmas returns_intros = returns_with_playwright returns_block_Cons returns_block_Nil
  returns_api_call returns_api_value returns_screenshot returns_bounding_box
  returns_time_sleep returns_py_print returns_launch returns_browser_close
  returns_playwright_stop returns_then_with returns_try_except_finally returns_try_finally

section \<open>Closing the browser\<close>























section \<open>The settings scenario\<close>






text \<open>
  C5.  Claim: the settings scenario runs exactly the sequence navigate, wait up to
  10000 ms for title="Settings", click it, wait up to 5000 ms for "Board Theme",
  select "dark", click "Done", capture "settings_verification.png", and writes exactly
  one artifact on success.

  The script does more, and waits differently: its first wait is for the text "Ka"
  (10000 ms), its second wait has no timeout of its own, it fills the range input with
  "5" and clicks the board twice before the capture, and it prints a line after it.
  The capture goes to \<^verbatim>\<open>/home/jules/verification/settings_verification.png\<close>.
\<close>

theorem settings_sequence_counterexample:
  "trace (snd (verify_settings ok_env (start []))) \<noteq> spec_settings_sequence \<and>
   length (trace (snd (verify_settings ok_env (start [])))) = 14 \<and>
   length spec_settings_sequence = 7"
  by (simp add: verify_settings_def settings_body_def settings_handler_def
        spec_settings_sequence_def app_url_def api_defs prim_defs ctl_defs env_defs)

text \<open>C5, as amended: when no call raises, \<^verbatim>\<open>verify_settings\<close> makes exactly the calls
  below, in this order, returns normally, and writes exactly one file, the picture
  taken by its eleventh call.\<close>

theorem settings_sequence:
  assumes "\<forall>i c. raises e i c = None"
  shows \<open>fst (verify_settings e (start fs)) = Inr () \<and>
    trace (snd (verify_settings e (start fs))) =
      [Call (Goto ''http://localhost:5173'' None),
       Call (WaitForSelector ''text=Ka'' None (Some 10000)),
       Call (Locator ''button[title="Settings"]''),
       Call (HandleClick (BySelector ''button[title="Settings"]'')),
       Call (WaitForSelector ''text=Board Theme'' None None),
       Call (SelectOption ''select'' ''dark''),
       Call (Fill ''input[type="range"]'' ''5''),
       Call (Click ''text=Done''),
       Call (MouseClick 500 300), Sleep 500,
       Call (MouseClick 550 300), Sleep 500,
       Call (Screenshot ''/home/jules/verification/settings_verification.png''),
       Print ''Screenshot taken''] \<and>
    shots (trace (snd (verify_settings e (start fs)))) =
      [''/home/jules/verification/settings_verification.png''] \<and>
    files (snd (verify_settings e (start fs))) =
      write_file ''/home/jules/verification/settings_verification.png'' (render e 10) fs\<close>
  using assms
  by (simp add: verify_settings_def settings_body_def settings_handler_def
        app_url_def api_defs prim_defs ctl_defs start_def)
     (simp add: eval_nat_numeral)

theorem settings_sequence_witness:
  \<open>(\<forall>i c. raises ok_env i c = None) \<and>
   fst (verify_settings ok_env (start [])) = Inr () \<and>
   trace (snd (verify_settings ok_env (start []))) =
      [Call (Goto ''http://localhost:5173'' None),
       Call (WaitForSelector ''text=Ka'' None (Some 10000)),
       Call (Locator ''button[title="Settings"]''),
       Call (HandleClick (BySelector ''button[title="Settings"]'')),
       Call (WaitForSelector ''text=Board Theme'' None None),
       Call (SelectOption ''select'' ''dark''),
       Call (Fill ''input[type="range"]'' ''5''),
       Call (Click ''text=Done''),
       Call (MouseClick 500 300), Sleep 500,
       Call (MouseClick 550 300), Sleep 500,
       Call (Screenshot ''/home/jules/verification/settings_verification.png''),
       Print ''Screenshot taken''] \<and>
   files (snd (verify_settings ok_env (start []))) =
      [(''/home/jules/verification/settings_verification.png'', 10)]\<close>
proof -
  have ok: "\<forall>i c. raises ok_env i c = None"
    by (simp add: ok_env_def)
  have "render ok_env 10 = 10"
    by (simp add: ok_env_def)
  with ok settings_sequence [OF ok, of "[]"] show ?thesis
    by (simp add: write_file_def)
qed


section \<open>The navigation scenario\<close>

lemma mouse_clicks_no_mouse: "list_all no_mouse evs \<Longrightarrow> mouse_clicks evs = 0"
  by (induction evs rule: mouse_clicks.induct) simp_all

lemma emits_locator_then:
  assumes "Q (Call (Locator sel))" and "emits e Q (f (BySelector sel))"
  shows "emits e Q (then_with (locator sel) f)"
proof (rule emitsI)
  fix s
  from emitsD [OF assms(2), of "tick (Locator sel) s"] assms(1)
  show "\<exists>evs. trace (snd (then_with (locator sel) f e s)) = trace s @ evs \<and> list_all Q evs"
    by (auto simp add: then_with_def locator_def api_value_def tick_def split: option.split)
qed

lemma emits_no_box:
  assumes "\<forall>i. bbox e i h = None" and "Q (Call (BoundingBox h))"
  shows "emits e Q (then_with (bounding_box h) nav_moves)"
  using assms
  by (intro emitsI)
     (simp add: then_with_def bounding_box_def nav_moves_def tick_def split: option.split)

lemma nav_no_box_no_mouse:
  assumes "\<forall>i. bbox e i (BySelector board_selector) = None"
  shows "emits e no_mouse verify_navigation"
  unfolding verify_navigation_def nav_guarded_def nav_body_def nav_handler_def
  by (intro emits_with_playwright emits_block_Cons emits_block_Nil emits_try_except_finally
        emits_locator_then emits_no_box [OF assms] emits_then_with;
      simp add: api_defs emits_api_call emits_api_value emits_screenshot emits_time_sleep
        emits_py_print emits_launch emits_browser_close)

text \<open>
  C9.  In the navigation scenario, when the bounding box of the board is \<^verbatim>\<open>None\<close>,
  the three coordinate clicks are skipped without an error: no run makes a coordinate
  click, whatever else the browser does; and when no call raises, the query of the
  bounding box is followed at once by the click on "Prev" and the screenshot.
\<close>

theorem nav_without_bounding_box:
  assumes "\<forall>i. bbox e i (BySelector board_selector) = None"
  shows "mouse_clicks (trace (snd (verify_navigation e (start fs)))) = 0 \<and>
    ((\<forall>i c. raises e i c = None) \<longrightarrow>
       fst (verify_navigation e (start fs)) = Inr () \<and>
       trace (snd (verify_navigation e (start fs))) =
         [Call PlaywrightStart, Call (Launch True), Call NewPage, Sleep 3000,
          Call (Goto ''http://localhost:5173'' None),
          Call (WaitForSelector board_selector None None),
          Call (Locator board_selector),
          Call (BoundingBox (BySelector board_selector)),
          Call (GetByText ''Prev''), Call (HandleClick (ByText ''Prev'')), Sleep 500,
          Call (Screenshot ''verification/verification.png''), Print ''Screenshot taken'',
          Call BrowserClose, Call PlaywrightStop])"
proof -
  from emitsD [OF nav_no_box_no_mouse [OF assms], of "start fs"] obtain evs
    where "trace (snd (verify_navigation e (start fs))) = evs" and "list_all no_mouse evs"
    by (auto simp add: start_def)
  then have 1: "mouse_clicks (trace (snd (verify_navigation e (start fs)))) = 0"
    by (simp add: mouse_clicks_no_mouse)
  have 2: "(\<forall>i c. raises e i c = None) \<longrightarrow>
       fst (verify_navigation e (start fs)) = Inr () \<and>
       trace (snd (verify_navigation e (start fs))) =
         [Call PlaywrightStart, Call (Launch True), Call NewPage, Sleep 3000,
          Call (Goto ''http://localhost:5173'' None),
          Call (WaitForSelector board_selector None None),
          Call (Locator board_selector),
          Call (BoundingBox (BySelector board_selector)),
          Call (GetByText ''Prev''), Call (HandleClick (ByText ''Prev'')), Sleep 500,
          Call (Screenshot ''verification/verification.png''), Print ''Screenshot taken'',
          Call BrowserClose, Call PlaywrightStop]"
    using assms
    by (simp add: verify_navigation_def nav_guarded_def nav_body_def nav_handler_def
          nav_moves_def app_url_def api_defs prim_defs ctl_defs start_def)
  from 1 2 show ?thesis by blast
qed

theorem nav_without_bounding_box_witness:
  "(\<forall>i. bbox no_box_env i (BySelector board_selector) = None) \<and>
   (\<forall>i c. raises no_box_env i c = None) \<and>
   mouse_clicks (trace (snd (verify_navigation no_box_env (start [])))) = 0 \<and>
   fst (verify_navigation no_box_env (start [])) = Inr () \<and>
   trace (snd (verify_navigation no_box_env (start []))) =
         [Call PlaywrightStart, Call (Launch True), Call NewPage, Sleep 3000,
          Call (Goto ''http://localhost:5173'' None),
          Call (WaitForSelector board_selector None None),
          Call (Locator board_selector),
          Call (BoundingBox (BySelector board_selector)),
          Call (GetByText ''Prev''), Call (HandleClick (ByText ''Prev'')), Sleep 500,
          Call (Screenshot ''verification/verification.png''), Print ''Screenshot taken'',
          Call BrowserClose, Call PlaywrightStop]"
proof -
  have nb: "\<forall>i. bbox no_box_env i (BySelector board_selector) = None"
    by (simp add: no_box_env_def ok_env_def)
  have ok: "\<forall>i c. raises no_box_env i c = None"
    by (simp add: no_box_env_def ok_env_def)
  from nb ok nav_without_bounding_box [OF nb, of "[]"] show ?thesis
    by blast
qed

section \<open>Screenshot artifacts\<close>

lemma shots_append: "shots (xs @ ys) = shots xs @ shots ys"
  by (induction xs rule: shots.induct) simp_all

lemma shots_shot_in: "list_all (shot_in S) evs \<Longrightarrow> set (shots evs) \<subseteq> S"
  by (induction evs rule: shots.induct) simp_all

lemma emits_shots:
  assumes "emits e (shot_in S) p"
  shows "set (shots (trace (snd (p e (start fs))))) \<subseteq> S"
proof -
  from emitsD [OF assms, of "start fs"] obtain evs
    where "trace (snd (p e (start fs))) = evs" and "list_all (shot_in S) evs"
    by (auto simp add: start_def)
  then show ?thesis by (simp add: shots_shot_in)
qed

lemma run_v1_shots:
  "emits e (shot_in {''verification/settings_modal.png'', ''verification/mistakes_ui.png''}) run_v1"
  unfolding run_v1_def api_defs
  by (intro emits_intros; simp)

lemma run_v2_shots:
  "emits e (shot_in {''verification/settings_modal.png'', ''verification/main_ui.png''}) run_v2"
  unfolding run_v2_def api_defs
  by (intro emits_intros; simp)

lemma run_v3_shots:
  "emits e (shot_in {''verification/settings_modal.png'', ''verification/main_ui.png'',
     ''verification/error.png''}) run_v3"
  unfolding run_v3_def v3_guarded_def v3_body_def v3_handler_def api_defs
  by (intro emits_intros; simp)

lemma run_v4_shots:
  "emits e (shot_in {''verification/early_render.png'', ''verification/error.png''}) run_v4"
  unfolding run_v4_def v4_guarded_def v4_body_def v4_handler_def api_defs
  by (intro emits_intros; simp)

lemma verify_navigation_shots:
  "emits e (shot_in {''verification/verification.png''}) verify_navigation"
  unfolding verify_navigation_def nav_guarded_def nav_body_def nav_handler_def api_defs
  by (intro emits_intros; simp)

lemma settings_main_shots:
  "emits e (shot_in {''/home/jules/verification/settings_verification.png''}) settings_main"
  unfolding settings_main_def verify_settings_def settings_body_def settings_handler_def
    main_handler_def api_defs
  by (intro emits_intros; simp)

text \<open>
  C7.  Claim: every screenshot of every scenario is written into one single fixed
  output directory, under a literal file name.

  The names are literals, but the directories are two: the settings scenario writes
  under the absolute path \<^verbatim>\<open>/home/jules/verification\<close>, the five other scripts under
  the relative path \<^verbatim>\<open>verification\<close>, which names a directory only together with the
  directory the script is started in.
\<close>

theorem screenshot_directory_counterexample:
  "map dir_of (shots (trace (snd (settings_main ok_env (start []))))) =
     [''/home/jules/verification''] \<and>
   map dir_of (shots (trace (snd (verify_navigation ok_env (start []))))) =
     [''verification'']"
  by (simp add: settings_main_def verify_settings_def settings_body_def settings_handler_def
        main_handler_def verify_navigation_def nav_guarded_def nav_body_def nav_handler_def
        nav_moves_def dir_of_def app_url_def api_defs prim_defs ctl_defs env_defs)

text \<open>C7, as amended: whatever the browser does, every screenshot of a scenario goes to
  one of the literal paths of its script; these lie in the relative directory
  \<^verbatim>\<open>verification\<close> for the four mistake scripts and the navigation script, and in
  \<^verbatim>\<open>/home/jules/verification\<close> for the settings script.\<close>

theorem screenshot_paths:
  "set (shots (trace (snd (run_v1 e (start fs))))) \<subseteq>
     {''verification/settings_modal.png'', ''verification/mistakes_ui.png''} \<and>
   set (shots (trace (snd (run_v2 e (start fs))))) \<subseteq>
     {''verification/settings_modal.png'', ''verification/main_ui.png''} \<and>
   set (shots (trace (snd (run_v3 e (start fs))))) \<subseteq>
     {''verification/settings_modal.png'', ''verification/main_ui.png'',
      ''verification/error.png''} \<and>
   set (shots (trace (snd (run_v4 e (start fs))))) \<subseteq>
     {''verification/early_render.png'', ''verification/error.png''} \<and>
   set (shots (trace (snd (verify_navigation e (start fs))))) \<subseteq>
     {''verification/verification.png''} \<and>
   set (shots (trace (snd (settings_main e (start fs))))) \<subseteq>
     {''/home/jules/verification/settings_verification.png''} \<and>
   map dir_of
     [''verification/settings_modal.png'', ''verification/mistakes_ui.png'',
      ''verification/main_ui.png'', ''verification/error.png'',
      ''verification/early_render.png'', ''verification/verification.png'',
      ''/home/jules/verification/settings_verification.png''] =
     [''verification'', ''verification'', ''verification'', ''verification'',
      ''verification'', ''verification'', ''/home/jules/verification'']"
proof -
  have "map dir_of
     [''verification/settings_modal.png'', ''verification/mistakes_ui.png'',
      ''verification/main_ui.png'', ''verification/error.png'',
      ''verification/early_render.png'', ''verification/verification.png'',
      ''/home/jules/verification/settings_verification.png''] =
     [''verification'', ''verification'', ''verification'', ''verification'',
      ''verification'', ''verification'', ''/home/jules/verification'']"
    by (simp add: dir_of_def)
  then show ?thesis
    by (intro conjI emits_shots [OF run_v1_shots] emits_shots [OF run_v2_shots]
          emits_shots [OF run_v3_shots] emits_shots [OF run_v4_shots]
          emits_shots [OF verify_navigation_shots] emits_shots [OF settings_main_shots])
qed

subsection \<open>Overwriting\<close>

lemma files_at_write_same: "files_at path (write_file path img fs) = [img]"
  by (simp add: files_at_def write_file_def filter_empty_conv)

lemma files_at_write_other:
  "path \<noteq> other \<Longrightarrow> files_at path (write_file other img fs) = files_at path fs"
proof -
  assume "path \<noteq> other"
  then have "filter (\<lambda>f. fst f = path) (filter (\<lambda>f. fst f \<noteq> other) fs) =
             filter (\<lambda>f. fst f = path) fs"
    by (induction fs) auto
  with \<open>path \<noteq> other\<close> show ?thesis
    by (simp add: files_at_def write_file_def)
qed

lemma run_v2_files:
  assumes "\<forall>i c. raises e i c = None"
  shows "files (snd (run_v2 e (start fs))) =
    write_file ''verification/main_ui.png'' (render e 8)
      (write_file ''verification/settings_modal.png'' (render e 6) fs)"
proof -
  have "files (snd (run_v2 e (start fs))) =
    write_file ''verification/main_ui.png'' (render e (Suc (Suc (Suc (Suc (Suc (Suc (Suc (Suc 0)))))))))
      (write_file ''verification/settings_modal.png'' (render e (Suc (Suc (Suc (Suc (Suc (Suc 0))))))) fs)"
    using assms
    apply (simp add: run_v2_def app_url_def api_defs api_call_def time_sleep_def screenshot_def
        tick_def ctl_defs start_def launch_def)
    apply (simp add: browser_close_def playwright_stop_def tick_def)
    done
  then show ?thesis
    by (simp add: eval_nat_numeral)
qed

text \<open>
  C8.  Capturing to a path at which a file already exists overwrites that file: after
  two captures to one path there is exactly one file at that path, and it holds the
  second capture.  So it is for two successful \<^verbatim>\<open>page.screenshot\<close> calls from any
  state, and so it is for \<^verbatim>\<open>verification/settings_modal.png\<close>, which both
  \<^verbatim>\<open>verify_mistakes.py\<close> and \<^verbatim>\<open>verify_mistakes_v2.py\<close> write, when the second script
  runs after the first.
\<close>

theorem capture_overwrites:
  "(raises e (ncalls s) (Screenshot path) = None \<and>
    raises e' (ncalls s + 1) (Screenshot path) = None \<longrightarrow>
      files_at path (files (snd (screenshot path e' (snd (screenshot path e s))))) =
        [render e' (ncalls s + 1)]) \<and>
   ((\<forall>i c. raises e' i c = None) \<longrightarrow>
      files_at ''verification/settings_modal.png''
        (files (snd (run_v2 e' (start (files (snd (run_v1 e (start fs)))))))) =
        [render e' 6])"
proof -
  have 1: "raises e (ncalls s) (Screenshot path) = None \<and>
    raises e' (ncalls s + 1) (Screenshot path) = None \<longrightarrow>
      files_at path (files (snd (screenshot path e' (snd (screenshot path e s))))) =
        [render e' (ncalls s + 1)]"
    by (simp add: screenshot_def tick_def files_at_write_same)
  have 2: "(\<forall>i c. raises e' i c = None) \<longrightarrow>
      files_at ''verification/settings_modal.png''
        (files (snd (run_v2 e' (start (files (snd (run_v1 e (start fs)))))))) =
        [render e' 6]"
    by (simp add: run_v2_files files_at_write_other files_at_write_same)
  from 1 2 show ?thesis by blast
qed

theorem capture_overwrites_witness:
  "raises ok_env 0 (Screenshot ''x.png'') = None \<and>
   raises ok_env 1 (Screenshot ''x.png'') = None \<and>
   (\<forall>i c. raises ok_env i c = None) \<and>
   files_at ''x.png''
     (files (snd (screenshot ''x.png'' ok_env (snd (screenshot ''x.png'' ok_env (start []))))))
     = [1] \<and>
   files_at ''verification/settings_modal.png''
     (files (snd (run_v2 ok_env (start (files (snd (run_v1 ok_env (start []))))))))
     = [6]"
proof -
  have ok: "\<forall>i c. raises ok_env i c = None"
    by (simp add: ok_env_def)
  have r: "render ok_env 6 = 6" "render ok_env (ncalls (start []) + 1) = 1"
    by (simp_all add: ok_env_def start_def)
  have n: "ncalls (start []) = 0"
    by (simp add: start_def)
  from capture_overwrites [of ok_env "start []" "''x.png''" ok_env "[]"] ok r n
  show ?thesis by simp
qed

section \<open>Blocks, statement by statement\<close>

lemma perform_trace:
  "trace (snd (perform ev e s)) = trace s @ [ev] \<and>
   ncalls (snd (perform ev e s)) = ncalls s + calls_in [ev]"
proof (cases ev)
  case (Call c)
  then show ?thesis
    by (cases c) (simp_all add: prim_defs split: option.split)
next
  case (Sleep ms)
  then show ?thesis by (simp add: prim_defs split: option.split)
next
  case (Print msg)
  then show ?thesis by (simp add: prim_defs split: option.split)
qed

lemma perform_result:
  "fst (perform ev e s) =
     (case raises e (ncalls s) (key_of ev) of Some x \<Rightarrow> Inl x | None \<Rightarrow> Inr ())"
proof (cases ev)
  case (Call c)
  then show ?thesis
    by (cases c) (simp_all add: prim_defs split: option.split)
next
  case (Sleep ms)
  then show ?thesis by (simp add: prim_defs split: option.split)
next
  case (Print msg)
  then show ?thesis by (simp add: prim_defs split: option.split)
qed

lemma calls_in_Cons: "calls_in (ev # evs) = calls_in [ev] + calls_in evs"
  by (cases ev) simp_all

text \<open>When statement \<open>n\<close> of a block is the first to raise, the block ends with its
  exception, and the statements 0 to \<open>n\<close> are those that ran.\<close>

lemma block_steps_fail:
  assumes "n < length evs"
    and "\<forall>k<n. raises e (ncalls s + calls_in (take k evs)) (key_of (evs ! k)) = None"
    and "raises e (ncalls s + calls_in (take n evs)) (key_of (evs ! n)) = Some x"
  shows "fst (block (map perform evs) e s) = Inl x \<and>
    trace (snd (block (map perform evs) e s)) = trace s @ take (Suc n) evs \<and>
    ncalls (snd (block (map perform evs) e s)) = ncalls s + calls_in (take (Suc n) evs)"
  using assms
proof (induction evs arbitrary: s n)
  case Nil
  then show ?case by simp
next
  case (Cons ev evs)
  obtain r s1 where p: "perform ev e s = (r, s1)" by (cases "perform ev e s")
  with perform_trace [of ev e s] perform_result [of ev e s]
  have s1: "trace s1 = trace s @ [ev]" "ncalls s1 = ncalls s + calls_in [ev]"
    and r: "r = (case raises e (ncalls s) (key_of ev) of Some x \<Rightarrow> Inl x | None \<Rightarrow> Inr ())"
    by simp_all
  show ?case
  proof (cases n)
    case 0
    with Cons.prems(3) r have "r = Inl x" by simp
    with p s1 0 show ?thesis by simp
  next
    case (Suc n')
    with Cons.prems(2) have "raises e (ncalls s) (key_of ev) = None"
      by (auto dest!: spec [of _ 0])
    with r have r': "r = Inr ()" by simp
    have 1: "n' < length evs" using Cons.prems(1) Suc by simp
    have 2: "\<forall>k<n'. raises e (ncalls s1 + calls_in (take k evs)) (key_of (evs ! k)) = None"
    proof (intro allI impI)
      fix k assume "k < n'"
      with Cons.prems(2) Suc
      have "raises e (ncalls s + calls_in (take (Suc k) (ev # evs))) (key_of ((ev # evs) ! Suc k)) = None"
        by (auto dest!: spec [of _ "Suc k"])
      then show "raises e (ncalls s1 + calls_in (take k evs)) (key_of (evs ! k)) = None"
        using s1 calls_in_Cons [of ev "take k evs"] by (simp add: add.assoc)
    qed
    have 3: "raises e (ncalls s1 + calls_in (take n' evs)) (key_of (evs ! n')) = Some x"
      using Cons.prems(3) Suc s1 calls_in_Cons [of ev "take n' evs"] by (simp add: add.assoc)
    from Cons.IH [OF 1 2 3] p r' s1 Suc calls_in_Cons [of ev "take (Suc n') evs"]
    show ?thesis by (simp add: add.assoc)
  qed
qed

lemma fails_atD:
  assumes "fails_at e s evs n x"
  shows "fst (block (map perform evs) e s) = Inl x \<and>
    trace (snd (block (map perform evs) e s)) = trace s @ take (Suc n) evs \<and>
    ncalls (snd (block (map perform evs) e s)) = ncalls s + calls_in (take (Suc n) evs)"
proof (rule block_steps_fail)
  from assms show "n < length evs" by (simp add: fails_at_def)
  from assms show "\<forall>k<n. raises e (ncalls s + calls_in (take k evs)) (key_of (evs ! k)) = None"
    by (simp add: fails_at_def list_all_iff)
  from assms show "raises e (ncalls s + calls_in (take n evs)) (key_of (evs ! n)) = Some x"
    by (simp add: fails_at_def)
qed

text \<open>A handle that is located and used at once: two statements of the block.\<close>

lemma block_then_value:
  "block (then_with (api_value c v) f # ps) e s = block (api_call c # f v # ps) e s"
  by (simp add: then_with_def api_value_def api_call_def split: option.split)

lemma block_cong_tail:
  "(\<And>s. block ps e s = block qs e s) \<Longrightarrow> block (p # ps) e s = block (p # qs) e s"
  by (simp split: prod.split sum.split)

lemma block_then_value_cong:
  "(\<And>s. block (f v # ps) e s = block qs e s) \<Longrightarrow>
   block (then_with (api_value c v) f # ps) e s = block (api_call c # qs) e s"
  by (simp add: block_then_value del: block.simps) (simp split: prod.split sum.split)

lemma block_cong_call:
  "(raises e (ncalls s) c = None \<Longrightarrow> block ps e (tick c s) = block qs e (tick c s)) \<Longrightarrow>
   block (api_call c # ps) e s = block (api_call c # qs) e s"
  by (simp add: api_call_def split: option.split)

lemma block_block: "block (block ps # qs) e s = block (ps @ qs) e s"
proof (induction ps arbitrary: s)
  case Nil
  show ?case by simp
next
  case (Cons p ps)
  show ?case
  proof (cases "p e s")
    case (Pair r s1)
    with Cons.IH [of s1] show ?thesis
      by (cases r) (simp_all split: prod.split sum.split)
  qed
qed

lemma nav_moves_steps: "nav_moves b = block (map perform (nav_move_steps b))"
  by (cases b) (simp_all add: nav_moves_def nav_move_steps_def mouse_click_def)

lemma block_bounding_box:
  "block (then_with (bounding_box h) nav_moves # ps) e s =
   block (api_call (BoundingBox h) # map perform (nav_move_steps (bbox e (ncalls s) h)) @ ps) e s"
proof (cases "raises e (ncalls s) (BoundingBox h)")
  case (Some x)
  then show ?thesis by (simp add: then_with_def bounding_box_def api_call_def)
next
  case None
  have "block (nav_moves (bbox e (ncalls s) h) # ps) e (tick (BoundingBox h) s) =
      block (map perform (nav_move_steps (bbox e (ncalls s) h)) @ ps) e (tick (BoundingBox h) s)"
    unfolding nav_moves_steps by (rule block_block)
  with None show ?thesis
    by (simp add: then_with_def bounding_box_def api_call_def)
qed

lemma v3_body_steps: "v3_body = block (map perform v3_steps)"
  by (simp add: v3_body_def v3_steps_def api_defs)

lemma v4_body_steps: "v4_body = block (map perform v4_steps)"
  by (simp add: v4_body_def v4_steps_def api_defs)

lemma settings_body_steps: "settings_body e s = block (map perform settings_steps) e s"
proof -
  have \<open>settings_body e s = block
     [api_call (Goto app_url None),
      api_call (WaitForSelector ''text=Ka'' None (Some 10000)),
      api_call (Locator ''button[title="Settings"]''),
      api_call (HandleClick (BySelector ''button[title="Settings"]'')),
      api_call (WaitForSelector ''text=Board Theme'' None None),
      api_call (SelectOption ''select'' ''dark''),
      api_call (Fill ''input[type="range"]'' ''5''),
      api_call (Click ''text=Done''),
      api_call (MouseClick 500 300),
      time_sleep 500,
      api_call (MouseClick 550 300),
      time_sleep 500,
      screenshot ''/home/jules/verification/settings_verification.png'',
      py_print ''Screenshot taken''] e s\<close>
    unfolding settings_body_def api_defs
    by (intro block_cong_tail block_then_value_cong refl)
  then show ?thesis
    by (simp add: settings_steps_def del: block.simps)
qed

lemma nav_body_steps:
  "nav_body e s =
   block (map perform (nav_steps (bbox e (ncalls s + 3) (BySelector board_selector)))) e s"
proof -
  let ?rest = "[api_call (GetByText ''Prev''), api_call (HandleClick (ByText ''Prev'')),
    time_sleep 500, screenshot ''verification/verification.png'', py_print ''Screenshot taken'']"
  have "nav_body e s = block
     (api_call (Goto app_url None) # api_call (WaitForSelector board_selector None None) #
      api_call (Locator board_selector) #
      then_with (bounding_box (BySelector board_selector)) nav_moves # ?rest) e s"
    unfolding nav_body_def api_defs
    by (intro block_cong_tail block_then_value_cong refl)
  also have "\<dots> = block
     (api_call (Goto app_url None) # api_call (WaitForSelector board_selector None None) #
      api_call (Locator board_selector) # api_call (BoundingBox (BySelector board_selector)) #
      map perform (nav_move_steps (bbox e (ncalls s + 3) (BySelector board_selector))) @ ?rest) e s"
  proof (intro block_cong_call)
    let ?s3 = "tick (Locator board_selector) (tick (WaitForSelector board_selector None None)
                 (tick (Goto app_url None) s))"
    have "ncalls ?s3 = ncalls s + 3" by (simp add: tick_def)
    with block_bounding_box [of "BySelector board_selector" ?rest e ?s3]
    show "block (then_with (bounding_box (BySelector board_selector)) nav_moves # ?rest) e ?s3 =
      block (api_call (BoundingBox (BySelector board_selector)) #
        map perform (nav_move_steps (bbox e (ncalls s + 3) (BySelector board_selector))) @ ?rest)
        e ?s3"
      by simp
  qed
  also have "\<dots> =
    block (map perform (nav_steps (bbox e (ncalls s + 3) (BySelector board_selector)))) e s"
    by (simp add: nav_steps_def del: block.simps)
  finally show ?thesis .
qed

section \<open>Failed steps\<close>

lemma guarded_trace:
  assumes "try_except b h e s = (r, s1)"
  shows "trace (snd (try_except_finally b h browser_close e s)) = trace s1 @ [Call BrowserClose]"
  using assms
  by (simp add: try_except_finally_def try_finally_def browser_close_def tick_def
        split: option.split)

lemma guarded_result:
  assumes "try_except b h e s = (r, s1)"
  shows "fst (try_except_finally b h browser_close e s) =
     (case raises e (ncalls s1) BrowserClose of Some z \<Rightarrow> Inl z | None \<Rightarrow> r)"
  using assms
  by (simp add: try_except_finally_def try_finally_def browser_close_def tick_def
        split: option.split)

text \<open>The handler of \<^verbatim>\<open>verify_mistakes_v3.py\<close> and \<^verbatim>\<open>verify_mistakes_v4.py\<close>, when its
  line is printed.\<close>

lemma diagnostic_handler:
  assumes "raises e (ncalls s) (PrintLine (''Error: '' @ m)) = None"
  shows "trace (snd (block [py_print (''Error: '' @ m), screenshot ''verification/error.png''] e s)) =
     trace s @ [Print (''Error: '' @ m), Call (Screenshot ''verification/error.png'')] \<and>
   ncalls (snd (block [py_print (''Error: '' @ m), screenshot ''verification/error.png''] e s)) =
     ncalls s + 1 \<and>
   fst (block [py_print (''Error: '' @ m), screenshot ''verification/error.png''] e s) =
     (case raises e (ncalls s) (Screenshot ''verification/error.png'') of
        Some y \<Rightarrow> Inl y | None \<Rightarrow> Inr ())"
  using assms by (simp add: py_print_def screenshot_def tick_def split: option.split)

lemma failed_body_with_capture:
  assumes "fst (b e s) = Inl (Exception m)"
    and "raises e (ncalls (snd (b e s))) (PrintLine (''Error: '' @ m)) = None"
    and "\<And>x. h x = block [py_print (''Error: '' @ x), screenshot ''verification/error.png'']"
  shows "trace (snd (try_except_finally b h browser_close e s)) =
     trace (snd (b e s)) @
       [Print (''Error: '' @ m), Call (Screenshot ''verification/error.png''),
        Call BrowserClose] \<and>
   fst (try_except_finally b h browser_close e s) =
     (case raises e (ncalls (snd (b e s)) + 1) BrowserClose of
        Some z \<Rightarrow> Inl z
      | None \<Rightarrow>
          (case raises e (ncalls (snd (b e s))) (Screenshot ''verification/error.png'') of
             Some y \<Rightarrow> Inl y
           | None \<Rightarrow> Inr ()))"
proof -
  obtain s1 where bs: "b e s = (Inl (Exception m), s1)"
    using assms(1) by (cases "b e s") simp
  obtain r s2 where hs: "h m e s1 = (r, s2)" by (cases "h m e s1")
  with bs have te: "try_except b h e s = (r, s2)"
    by (simp add: try_except_def)
  from assms(2) bs have "raises e (ncalls s1) (PrintLine (''Error: '' @ m)) = None" by simp
  from diagnostic_handler [OF this] hs assms(3) [of m]
  have "trace s2 = trace s1 @ [Print (''Error: '' @ m), Call (Screenshot ''verification/error.png'')]"
    and "ncalls s2 = ncalls s1 + 1"
    and "r = (case raises e (ncalls s1) (Screenshot ''verification/error.png'') of
        Some y \<Rightarrow> Inl y | None \<Rightarrow> Inr ())"
    by simp_all
  with guarded_trace [OF te] guarded_result [OF te] bs show ?thesis
    by (simp split: option.split)
qed

text \<open>A handler that only prints.\<close>

lemma failed_body_with_print:
  assumes "fst (b e s) = Inl (Exception m)" and "\<And>x. h x = py_print (msg @ x)"
  shows "trace (snd (try_except b h e s)) = trace (snd (b e s)) @ [Print (msg @ m)] \<and>
    fst (try_except b h e s) =
      (case raises e (ncalls (snd (b e s))) (PrintLine (msg @ m)) of
         Some y \<Rightarrow> Inl y | None \<Rightarrow> Inr ())"
proof -
  obtain s1 where bs: "b e s = (Inl (Exception m), s1)"
    using assms(1) by (cases "b e s") simp
  then show ?thesis
    by (simp add: try_except_def assms(2) py_print_def split: option.split)
qed

text \<open>What the four guarded blocks do when statement \<open>n\<close> of the body is the first to
  raise, and raises an \<^verbatim>\<open>Exception\<close>.\<close>

lemma v3_failed_step:
  assumes "fails_at e s v3_steps n (Exception m)"
    and "raises e (ncalls s + calls_in (take (Suc n) v3_steps)) (PrintLine (''Error: '' @ m)) = None"
  shows "trace (snd (v3_guarded e s)) =
        trace s @ take (Suc n) v3_steps @
          [Print (''Error: '' @ m), Call (Screenshot ''verification/error.png''),
           Call BrowserClose]"
proof -
  from fails_atD [OF assms(1)]
  have b: "fst (v3_body e s) = Inl (Exception m)"
    "trace (snd (v3_body e s)) = trace s @ take (Suc n) v3_steps"
    "ncalls (snd (v3_body e s)) = ncalls s + calls_in (take (Suc n) v3_steps)"
    by (simp_all add: v3_body_steps)
  have "trace (snd (try_except_finally v3_body v3_handler browser_close e s)) =
     trace (snd (v3_body e s)) @
       [Print (''Error: '' @ m), Call (Screenshot ''verification/error.png''),
        Call BrowserClose]"
    using failed_body_with_capture [of v3_body e s m v3_handler] b assms(2)
    by (simp add: v3_handler_def)
  with b show ?thesis by (simp add: v3_guarded_def)
qed

lemma v4_failed_step:
  assumes "fails_at e s v4_steps n (Exception m)"
    and "raises e (ncalls s + calls_in (take (Suc n) v4_steps)) (PrintLine (''Error: '' @ m)) = None"
  shows "trace (snd (v4_guarded e s)) =
        trace s @ take (Suc n) v4_steps @
          [Print (''Error: '' @ m), Call (Screenshot ''verification/error.png''),
           Call BrowserClose]"
proof -
  from fails_atD [OF assms(1)]
  have b: "fst (v4_body e s) = Inl (Exception m)"
    "trace (snd (v4_body e s)) = trace s @ take (Suc n) v4_steps"
    "ncalls (snd (v4_body e s)) = ncalls s + calls_in (take (Suc n) v4_steps)"
    by (simp_all add: v4_body_steps)
  have "trace (snd (try_except_finally v4_body v4_handler browser_close e s)) =
     trace (snd (v4_body e s)) @
       [Print (''Error: '' @ m), Call (Screenshot ''verification/error.png''),
        Call BrowserClose]"
    using failed_body_with_capture [of v4_body e s m v4_handler] b assms(2)
    by (simp add: v4_handler_def)
  with b show ?thesis by (simp add: v4_guarded_def)
qed

lemma nav_failed_step:
  assumes "fails_at e s (nav_steps (bbox e (ncalls s + 3) (BySelector board_selector))) n
             (Exception m)"
  shows "trace (snd (nav_guarded e s)) =
        trace s @ take (Suc n) (nav_steps (bbox e (ncalls s + 3) (BySelector board_selector))) @
          [Print (''Error: '' @ m), Call BrowserClose]"
proof -
  let ?steps = "nav_steps (bbox e (ncalls s + 3) (BySelector board_selector))"
  from fails_atD [OF assms]
  have b: "fst (nav_body e s) = Inl (Exception m)"
    "trace (snd (nav_body e s)) = trace s @ take (Suc n) ?steps"
    by (simp_all add: nav_body_steps)
  obtain r s1 where te: "try_except nav_body nav_handler e s = (r, s1)"
    by (cases "try_except nav_body nav_handler e s")
  with failed_body_with_print [of nav_body e s m nav_handler "''Error: ''"] b
  have "trace s1 = trace s @ take (Suc n) ?steps @ [Print (''Error: '' @ m)]"
    by (simp add: nav_handler_def)
  with guarded_trace [OF te] show ?thesis by (simp add: nav_guarded_def)
qed

lemma settings_failed_step:
  assumes "fails_at e s settings_steps n (Exception m)"
    and "raises e (ncalls s + calls_in (take (Suc n) settings_steps))
           (PrintLine (''Error in verify_settings: '' @ m)) = None"
  shows "fst (verify_settings e s) = Inr () \<and>
      trace (snd (verify_settings e s)) =
        trace s @ take (Suc n) settings_steps @ [Print (''Error in verify_settings: '' @ m)]"
proof -
  from fails_atD [OF assms(1)]
  have b: "fst (settings_body e s) = Inl (Exception m)"
    "trace (snd (settings_body e s)) = trace s @ take (Suc n) settings_steps"
    "ncalls (snd (settings_body e s)) = ncalls s + calls_in (take (Suc n) settings_steps)"
    by (simp_all add: settings_body_steps)
  with failed_body_with_print [of settings_body e s m settings_handler
         "''Error in verify_settings: ''"] assms(2)
  show ?thesis
    by (simp add: verify_settings_def settings_handler_def)
qed


lemma upt_0_3: "[0..<3] = [0, 1, 2]"
  by (simp add: upt_conv_Cons)

lemma upt_0_4: "[0..<4] = [0, 1, 2, 3]"
  by (simp add: upt_conv_Cons)

lemma upt_0_11: "[0..<11] = [0, 1, 2, 3, 4, 5, 6, 7, 8, 9, 10]"
  by (simp add: upt_conv_Cons)

lemma fails_atI:
  "n < length evs \<Longrightarrow>
   list_all (\<lambda>k. raises e (ncalls s + calls_in (take k evs)) (key_of (evs ! k)) = None) [0..<n] \<Longrightarrow>
   raises e (ncalls s + calls_in (take n evs)) (key_of (evs ! n)) = Some x \<Longrightarrow>
   fails_at e s evs n x"
  by (simp add: fails_at_def)

text \<open>
  C3.  Claim: whenever a step of a scenario fails, the scenario ends as failed and,
  before exiting, takes one final diagnostic screenshot of the page.

  Only \<^verbatim>\<open>verify_mistakes_v3.py\<close> and \<^verbatim>\<open>verify_mistakes_v4.py\<close> take that screenshot.
  The handlers of \<^verbatim>\<open>verify_nav.py\<close> and \<^verbatim>\<open>verify_settings.py\<close> print the error and
  nothing else: against an application that does not answer, the navigation scenario
  ends without a single screenshot.
\<close>

theorem nav_failed_step_counterexample:
  "trace (snd (verify_navigation unreachable_env (start []))) =
     [Call PlaywrightStart, Call (Launch True), Call NewPage, Sleep 3000,
      Call (Goto ''http://localhost:5173'' None),
      Print ''Error: net::ERR_CONNECTION_REFUSED'',
      Call BrowserClose, Call PlaywrightStop] \<and>
   shots (trace (snd (verify_navigation unreachable_env (start [])))) = []"
  by (simp add: verify_navigation_def nav_guarded_def nav_body_def nav_handler_def
        app_url_def api_defs prim_defs ctl_defs env_defs)

text \<open>C3, as amended: when a statement inside the \<^verbatim>\<open>try\<close> block is reached and raises
  an \<^verbatim>\<open>Exception\<close>, no later statement of the block runs: what has run of the block are
  its statements up to the one that raised.  In \<^verbatim>\<open>verify_mistakes_v3.py\<close> and
  \<^verbatim>\<open>verify_mistakes_v4.py\<close> the error is then printed and, if that line could be
  printed, one screenshot to \<^verbatim>\<open>verification/error.png\<close> is attempted and the browser
  is closed.  In \<^verbatim>\<open>verify_nav.py\<close> the error is printed and the browser is closed; in
  \<^verbatim>\<open>verify_settings\<close> the error is printed and, if that line could be printed, the
  function returns; neither takes a diagnostic screenshot.\<close>

theorem failed_step_handling:
  "(fails_at e s v3_steps n (Exception m) \<and>
    raises e (ncalls s + calls_in (take (Suc n) v3_steps)) (PrintLine (''Error: '' @ m)) = None \<longrightarrow>
      trace (snd (v3_guarded e s)) =
        trace s @ take (Suc n) v3_steps @
          [Print (''Error: '' @ m), Call (Screenshot ''verification/error.png''),
           Call BrowserClose]) \<and>
   (fails_at e s v4_steps n (Exception m) \<and>
    raises e (ncalls s + calls_in (take (Suc n) v4_steps)) (PrintLine (''Error: '' @ m)) = None \<longrightarrow>
      trace (snd (v4_guarded e s)) =
        trace s @ take (Suc n) v4_steps @
          [Print (''Error: '' @ m), Call (Screenshot ''verification/error.png''),
           Call BrowserClose]) \<and>
   (fails_at e s (nav_steps (bbox e (ncalls s + 3) (BySelector board_selector))) n
      (Exception m) \<longrightarrow>
      trace (snd (nav_guarded e s)) =
        trace s @ take (Suc n) (nav_steps (bbox e (ncalls s + 3) (BySelector board_selector))) @
          [Print (''Error: '' @ m), Call BrowserClose]) \<and>
   (fails_at e s settings_steps n (Exception m) \<and>
    raises e (ncalls s + calls_in (take (Suc n) settings_steps))
      (PrintLine (''Error in verify_settings: '' @ m)) = None \<longrightarrow>
      fst (verify_settings e s) = Inr () \<and>
      trace (snd (verify_settings e s)) =
        trace s @ take (Suc n) settings_steps @ [Print (''Error in verify_settings: '' @ m)])"
  using v3_failed_step [of e s n m] v4_failed_step [of e s n m] nav_failed_step [of e s n m]
    settings_failed_step [of e s n m]
  by (intro conjI impI; (elim conjE)?; simp)

text \<open>The fourth statement fails in \<^verbatim>\<open>verify_mistakes_v3.py\<close> (the click on Settings)
  and in \<^verbatim>\<open>verify_mistakes_v4.py\<close> (the screenshot), the twelfth in \<^verbatim>\<open>verify_nav.py\<close>
  (the click on "Prev"), the fifth in \<^verbatim>\<open>verify_settings\<close> (the wait for
  "Board Theme").\<close>

theorem failed_step_handling_witness:
  "fails_at (fail_on (Click ''button[title='Settings']'') ''Timeout 30000ms exceeded.'')
     (start []) v3_steps 3 (Exception ''Timeout 30000ms exceeded.'') \<and>
   trace (snd (v3_guarded
       (fail_on (Click ''button[title='Settings']'') ''Timeout 30000ms exceeded.'') (start []))) =
     [Call (Goto ''http://localhost:5173'' (Some 60000)),
      Call (WaitForSelector ''body'' (Some ''visible'') None),
      Call (WaitForSelector ''text=Ka'' (Some ''visible'') None),
      Call (Click ''button[title='Settings']''),
      Print ''Error: Timeout 30000ms exceeded.'',
      Call (Screenshot ''verification/error.png''), Call BrowserClose] \<and>
   fails_at (fail_on (Screenshot ''verification/early_render.png'') ''Target closed'')
     (start []) v4_steps 3 (Exception ''Target closed'') \<and>
   trace (snd (v4_guarded
       (fail_on (Screenshot ''verification/early_render.png'') ''Target closed'') (start []))) =
     [Call (Goto ''http://localhost:5173'' (Some 60000)),
      Call (WaitForSelector ''#root'' (Some ''visible'') None),
      Sleep 2000,
      Call (Screenshot ''verification/early_render.png''),
      Print ''Error: Target closed'',
      Call (Screenshot ''verification/error.png''), Call BrowserClose] \<and>
   fails_at (fail_on (HandleClick (ByText ''Prev'')) ''Timeout 30000ms exceeded.'') (start [])
     (nav_steps (Some \<lparr>box_x = 10, box_y = 20, box_width = 600, box_height = 600\<rparr>)) 11
     (Exception ''Timeout 30000ms exceeded.'') \<and>
   trace (snd (nav_guarded
       (fail_on (HandleClick (ByText ''Prev'')) ''Timeout 30000ms exceeded.'') (start []))) =
     [Call (Goto ''http://localhost:5173'' None),
      Call (WaitForSelector board_selector None None),
      Call (Locator board_selector),
      Call (BoundingBox (BySelector board_selector)),
      Call (MouseClick 110 120), Sleep 500,
      Call (MouseClick 210 120), Sleep 500,
      Call (MouseClick 110 220), Sleep 500,
      Call (GetByText ''Prev''), Call (HandleClick (ByText ''Prev'')),
      Print ''Error: Timeout 30000ms exceeded.'', Call BrowserClose] \<and>
   fails_at (fail_on (WaitForSelector ''text=Board Theme'' None None) ''Timeout 30000ms exceeded.'')
     (start []) settings_steps 4 (Exception ''Timeout 30000ms exceeded.'') \<and>
   fst (verify_settings
       (fail_on (WaitForSelector ''text=Board Theme'' None None) ''Timeout 30000ms exceeded.'')
       (start [])) = Inr () \<and>
   trace (snd (verify_settings
       (fail_on (WaitForSelector ''text=Board Theme'' None None) ''Timeout 30000ms exceeded.'')
       (start []))) =
     [Call (Goto ''http://localhost:5173'' None),
      Call (WaitForSelector ''text=Ka'' None (Some 10000)),
      Call (Locator (CHR ''b'' # ''utton[title='' @ CHR 0x22 # ''Settings'' @ CHR 0x22 # '']'')),
      Call (HandleClick (BySelector
        (CHR ''b'' # ''utton[title='' @ CHR 0x22 # ''Settings'' @ CHR 0x22 # '']''))),
      Call (WaitForSelector ''text=Board Theme'' None None),
      Print ''Error in verify_settings: Timeout 30000ms exceeded.'']"
proof -
  let ?E3 = "fail_on (Click ''button[title='Settings']'') ''Timeout 30000ms exceeded.''"
  let ?E4 = "fail_on (Screenshot ''verification/early_render.png'') ''Target closed''"
  let ?En = "fail_on (HandleClick (ByText ''Prev'')) ''Timeout 30000ms exceeded.''"
  let ?Es = "fail_on (WaitForSelector ''text=Board Theme'' None None) ''Timeout 30000ms exceeded.''"
  let ?b = "\<lparr>box_x = 10, box_y = 20, box_width = 600, box_height = 600\<rparr>"
  have f3: "fails_at ?E3 (start []) v3_steps 3 (Exception ''Timeout 30000ms exceeded.'')"
    by (rule fails_atI; (simp only: upt_0_3)?)
       (simp_all add: v3_steps_def app_url_def env_defs)
  have p3: "raises ?E3 (ncalls (start []) + calls_in (take (Suc 3) v3_steps))
      (PrintLine (''Error: '' @ ''Timeout 30000ms exceeded.'')) = None"
    by (simp add: env_defs)
  have f4: "fails_at ?E4 (start []) v4_steps 3 (Exception ''Target closed'')"
    by (rule fails_atI; (simp only: upt_0_3)?)
       (simp_all add: v4_steps_def app_url_def env_defs)
  have p4: "raises ?E4 (ncalls (start []) + calls_in (take (Suc 3) v4_steps))
      (PrintLine (''Error: '' @ ''Target closed'')) = None"
    by (simp add: env_defs)
  have bn: "bbox ?En (ncalls (start []) + 3) (BySelector board_selector) = Some ?b"
    by (simp add: env_defs)
  have fn: "fails_at ?En (start []) (nav_steps (Some ?b)) 11 (Exception ''Timeout 30000ms exceeded.'')"
    by (rule fails_atI; (simp only: upt_0_11)?)
       (simp_all add: nav_steps_def nav_move_steps_def app_url_def env_defs)
  have fs: "fails_at ?Es (start []) settings_steps 4 (Exception ''Timeout 30000ms exceeded.'')"
    by (rule fails_atI; (simp only: upt_0_4)?)
       (simp_all add: settings_steps_def app_url_def env_defs)
  have ps: "raises ?Es (ncalls (start []) + calls_in (take (Suc 4) settings_steps))
      (PrintLine (''Error in verify_settings: '' @ ''Timeout 30000ms exceeded.'')) = None"
    by (simp add: env_defs)
  have t3: "trace (snd (v3_guarded ?E3 (start []))) =
      trace (start []) @ take (Suc 3) v3_steps @
        [Print (''Error: '' @ ''Timeout 30000ms exceeded.''),
         Call (Screenshot ''verification/error.png''), Call BrowserClose]"
    using failed_step_handling [of ?E3 "start []" 3 "''Timeout 30000ms exceeded.''"] f3 p3
    by blast
  have t4: "trace (snd (v4_guarded ?E4 (start []))) =
      trace (start []) @ take (Suc 3) v4_steps @
        [Print (''Error: '' @ ''Target closed''),
         Call (Screenshot ''verification/error.png''), Call BrowserClose]"
    using failed_step_handling [of ?E4 "start []" 3 "''Target closed''"] f4 p4
    by blast
  have tn: "trace (snd (nav_guarded ?En (start []))) =
      trace (start []) @ take (Suc 11) (nav_steps (Some ?b)) @
        [Print (''Error: '' @ ''Timeout 30000ms exceeded.''), Call BrowserClose]"
    using failed_step_handling [of ?En "start []" 11 "''Timeout 30000ms exceeded.''"] fn bn
    by simp
  have ts: "fst (verify_settings ?Es (start [])) = Inr () \<and>
      trace (snd (verify_settings ?Es (start []))) =
        trace (start []) @ take (Suc 4) settings_steps @
          [Print (''Error in verify_settings: '' @ ''Timeout 30000ms exceeded.'')]"
    using failed_step_handling [of ?Es "start []" 4 "''Timeout 30000ms exceeded.''"] fs ps
    by blast
  have l3: "take (Suc 3) v3_steps =
     [Call (Goto ''http://localhost:5173'' (Some 60000)),
      Call (WaitForSelector ''body'' (Some ''visible'') None),
      Call (WaitForSelector ''text=Ka'' (Some ''visible'') None),
      Call (Click ''button[title='Settings']'')]"
    by (simp add: v3_steps_def app_url_def)
  have l4: "take (Suc 3) v4_steps =
     [Call (Goto ''http://localhost:5173'' (Some 60000)),
      Call (WaitForSelector ''#root'' (Some ''visible'') None),
      Sleep 2000,
      Call (Screenshot ''verification/early_render.png'')]"
    by (simp add: v4_steps_def app_url_def)
  have ln: "take (Suc 11) (nav_steps (Some ?b)) =
     [Call (Goto ''http://localhost:5173'' None),
      Call (WaitForSelector board_selector None None),
      Call (Locator board_selector),
      Call (BoundingBox (BySelector board_selector)),
      Call (MouseClick 110 120), Sleep 500,
      Call (MouseClick 210 120), Sleep 500,
      Call (MouseClick 110 220), Sleep 500,
      Call (GetByText ''Prev''), Call (HandleClick (ByText ''Prev''))]"
    by (simp add: nav_steps_def nav_move_steps_def app_url_def)
  have ls: "take (Suc 4) settings_steps =
     [Call (Goto ''http://localhost:5173'' None),
      Call (WaitForSelector ''text=Ka'' None (Some 10000)),
      Call (Locator (CHR ''b'' # ''utton[title='' @ CHR 0x22 # ''Settings'' @ CHR 0x22 # '']'')),
      Call (HandleClick (BySelector
        (CHR ''b'' # ''utton[title='' @ CHR 0x22 # ''Settings'' @ CHR 0x22 # '']''))),
      Call (WaitForSelector ''text=Board Theme'' None None)]"
    by (simp add: settings_steps_def app_url_def)
  from t3 l3 have "trace (snd (v3_guarded ?E3 (start []))) =
     [Call (Goto ''http://localhost:5173'' (Some 60000)),
      Call (WaitForSelector ''body'' (Some ''visible'') None),
      Call (WaitForSelector ''text=Ka'' (Some ''visible'') None),
      Call (Click ''button[title='Settings']''),
      Print ''Error: Timeout 30000ms exceeded.'',
      Call (Screenshot ''verification/error.png''), Call BrowserClose]"
    by (simp add: start_def del: take_Suc_Cons)
  moreover from t4 l4 have "trace (snd (v4_guarded ?E4 (start []))) =
     [Call (Goto ''http://localhost:5173'' (Some 60000)),
      Call (WaitForSelector ''#root'' (Some ''visible'') None),
      Sleep 2000,
      Call (Screenshot ''verification/early_render.png''),
      Print ''Error: Target closed'',
      Call (Screenshot ''verification/error.png''), Call BrowserClose]"
    by (simp add: start_def del: take_Suc_Cons)
  moreover from tn ln have "trace (snd (nav_guarded ?En (start []))) =
     [Call (Goto ''http://localhost:5173'' None),
      Call (WaitForSelector board_selector None None),
      Call (Locator board_selector),
      Call (BoundingBox (BySelector board_selector)),
      Call (MouseClick 110 120), Sleep 500,
      Call (MouseClick 210 120), Sleep 500,
      Call (MouseClick 110 220), Sleep 500,
      Call (GetByText ''Prev''), Call (HandleClick (ByText ''Prev'')),
      Print ''Error: Timeout 30000ms exceeded.'', Call BrowserClose]"
    by (simp add: start_def del: take_Suc_Cons)
  moreover from ts ls have "fst (verify_settings ?Es (start [])) = Inr () \<and>
    trace (snd (verify_settings ?Es (start []))) =
     [Call (Goto ''http://localhost:5173'' None),
      Call (WaitForSelector ''text=Ka'' None (Some 10000)),
      Call (Locator (CHR ''b'' # ''utton[title='' @ CHR 0x22 # ''Settings'' @ CHR 0x22 # '']'')),
      Call (HandleClick (BySelector
        (CHR ''b'' # ''utton[title='' @ CHR 0x22 # ''Settings'' @ CHR 0x22 # '']''))),
      Call (WaitForSelector ''text=Board Theme'' None None),
      Print ''Error in verify_settings: Timeout 30000ms exceeded.'']"
    by (simp add: start_def del: take_Suc_Cons)
  ultimately show ?thesis
    using f3 f4 fn fs by (intro conjI; simp)
qed

section \<open>Exceptions that leave a scenario\<close>

text \<open>
  C6.  Claim: a failure of the diagnostic screenshot is only logged and never
  propagates; the diagnostic path raises nothing to its caller.

  No script guards the screenshot it takes in its \<^verbatim>\<open>except\<close> clause.  When the
  application does not answer and the screenshot of the error page fails as well, the
  second exception is not printed and leaves \<^verbatim>\<open>run()\<close>; the process ends with it.
\<close>

theorem diagnostic_capture_counterexample:
  "fst (run_v3
     (fail_on2 (Goto ''http://localhost:5173'' (Some 60000)) ''net::ERR_CONNECTION_REFUSED''
        (Screenshot ''verification/error.png'') ''Target page has been closed'')
     (start [])) = Inl (Exception ''Target page has been closed'') \<and>
   trace (snd (run_v3
     (fail_on2 (Goto ''http://localhost:5173'' (Some 60000)) ''net::ERR_CONNECTION_REFUSED''
        (Screenshot ''verification/error.png'') ''Target page has been closed'')
     (start []))) =
     [Call PlaywrightStart, Call (Launch True), Call NewPage,
      Call (Goto ''http://localhost:5173'' (Some 60000)),
      Print ''Error: net::ERR_CONNECTION_REFUSED'',
      Call (Screenshot ''verification/error.png''),
      Call BrowserClose, Call PlaywrightStop]"
  by (simp add: run_v3_def v3_guarded_def v3_body_def v3_handler_def app_url_def
        api_defs prim_defs ctl_defs env_defs)

text \<open>C6, as amended: in \<^verbatim>\<open>verify_mistakes_v3.py\<close> and \<^verbatim>\<open>verify_mistakes_v4.py\<close>, when a
  step has failed with an \<^verbatim>\<open>Exception\<close>, its message has been printed, and the
  diagnostic screenshot raises as well, the browser is still closed, nothing more is
  printed, and an exception leaves the guarded block: that of the screenshot, or that of
  \<^verbatim>\<open>browser.close()\<close> if it raises too.  When the diagnostic screenshot and
  \<^verbatim>\<open>browser.close()\<close> succeed, the block ends normally.\<close>

theorem diagnostic_capture_failure:
  "(fst (v3_body e s) = Inl (Exception m) \<and>
    raises e (ncalls (snd (v3_body e s))) (PrintLine (''Error: '' @ m)) = None \<and>
    raises e (ncalls (snd (v3_body e s))) (Screenshot ''verification/error.png'') = Some y \<longrightarrow>
      fst (v3_guarded e s) =
        Inl (case raises e (ncalls (snd (v3_body e s)) + 1) BrowserClose of
               None \<Rightarrow> y | Some z \<Rightarrow> z) \<and>
      trace (snd (v3_guarded e s)) =
        trace (snd (v3_body e s)) @
          [Print (''Error: '' @ m), Call (Screenshot ''verification/error.png''),
           Call BrowserClose]) \<and>
   (fst (v4_body e s) = Inl (Exception m) \<and>
    raises e (ncalls (snd (v4_body e s))) (PrintLine (''Error: '' @ m)) = None \<and>
    raises e (ncalls (snd (v4_body e s))) (Screenshot ''verification/error.png'') = Some y \<longrightarrow>
      fst (v4_guarded e s) =
        Inl (case raises e (ncalls (snd (v4_body e s)) + 1) BrowserClose of
               None \<Rightarrow> y | Some z \<Rightarrow> z) \<and>
      trace (snd (v4_guarded e s)) =
        trace (snd (v4_body e s)) @
          [Print (''Error: '' @ m), Call (Screenshot ''verification/error.png''),
           Call BrowserClose]) \<and>
   (fst (v3_body e s) = Inl (Exception m) \<and>
    raises e (ncalls (snd (v3_body e s))) (PrintLine (''Error: '' @ m)) = None \<and>
    raises e (ncalls (snd (v3_body e s))) (Screenshot ''verification/error.png'') = None \<and>
    raises e (ncalls (snd (v3_body e s)) + 1) BrowserClose = None \<longrightarrow>
      fst (v3_guarded e s) = Inr ()) \<and>
   (fst (v4_body e s) = Inl (Exception m) \<and>
    raises e (ncalls (snd (v4_body e s))) (PrintLine (''Error: '' @ m)) = None \<and>
    raises e (ncalls (snd (v4_body e s))) (Screenshot ''verification/error.png'') = None \<and>
    raises e (ncalls (snd (v4_body e s)) + 1) BrowserClose = None \<longrightarrow>
      fst (v4_guarded e s) = Inr ())"
proof -
  have c3: "fst (v3_body e s) = Inl (Exception m) \<Longrightarrow>
    raises e (ncalls (snd (v3_body e s))) (PrintLine (''Error: '' @ m)) = None \<Longrightarrow>
    trace (snd (v3_guarded e s)) =
        trace (snd (v3_body e s)) @
          [Print (''Error: '' @ m), Call (Screenshot ''verification/error.png''),
           Call BrowserClose] \<and>
    fst (v3_guarded e s) =
     (case raises e (ncalls (snd (v3_body e s)) + 1) BrowserClose of
        Some z \<Rightarrow> Inl z
      | None \<Rightarrow>
          (case raises e (ncalls (snd (v3_body e s))) (Screenshot ''verification/error.png'') of
             Some y \<Rightarrow> Inl y
           | None \<Rightarrow> Inr ()))"
    unfolding v3_guarded_def
    by (rule failed_body_with_capture) (simp_all add: v3_handler_def)
  have c4: "fst (v4_body e s) = Inl (Exception m) \<Longrightarrow>
    raises e (ncalls (snd (v4_body e s))) (PrintLine (''Error: '' @ m)) = None \<Longrightarrow>
    trace (snd (v4_guarded e s)) =
        trace (snd (v4_body e s)) @
          [Print (''Error: '' @ m), Call (Screenshot ''verification/error.png''),
           Call BrowserClose] \<and>
    fst (v4_guarded e s) =
     (case raises e (ncalls (snd (v4_body e s)) + 1) BrowserClose of
        Some z \<Rightarrow> Inl z
      | None \<Rightarrow>
          (case raises e (ncalls (snd (v4_body e s))) (Screenshot ''verification/error.png'') of
             Some y \<Rightarrow> Inl y
           | None \<Rightarrow> Inr ()))"
    unfolding v4_guarded_def
    by (rule failed_body_with_capture) (simp_all add: v4_handler_def)
  show ?thesis
    by (intro conjI impI; (elim conjE)?; simp add: c3 c4 split: option.split)
qed

theorem diagnostic_capture_failure_witness:
  "fst (v3_body
     (fail_on2 (Goto ''http://localhost:5173'' (Some 60000)) ''net::ERR_CONNECTION_REFUSED''
        (Screenshot ''verification/error.png'') ''Target page has been closed'')
     (start [])) = Inl (Exception ''net::ERR_CONNECTION_REFUSED'') \<and>
   fst (v3_guarded
     (fail_on2 (Goto ''http://localhost:5173'' (Some 60000)) ''net::ERR_CONNECTION_REFUSED''
        (Screenshot ''verification/error.png'') ''Target page has been closed'')
     (start [])) = Inl (Exception ''Target page has been closed'') \<and>
   trace (snd (v3_guarded
     (fail_on2 (Goto ''http://localhost:5173'' (Some 60000)) ''net::ERR_CONNECTION_REFUSED''
        (Screenshot ''verification/error.png'') ''Target page has been closed'')
     (start []))) =
     [Call (Goto ''http://localhost:5173'' (Some 60000)),
      Print ''Error: net::ERR_CONNECTION_REFUSED'',
      Call (Screenshot ''verification/error.png''), Call BrowserClose] \<and>
   fst (v4_body unreachable_env (start [])) = Inl (Exception ''net::ERR_CONNECTION_REFUSED'') \<and>
   fst (v4_guarded unreachable_env (start [])) = Inr ()"
proof -
  let ?E = "fail_on2 (Goto ''http://localhost:5173'' (Some 60000)) ''net::ERR_CONNECTION_REFUSED''
        (Screenshot ''verification/error.png'') ''Target page has been closed''"
  have b3: "v3_body ?E (start []) =
      (Inl (Exception ''net::ERR_CONNECTION_REFUSED''),
       \<lparr>trace = [Call (Goto ''http://localhost:5173'' (Some 60000))], files = [], ncalls = 1,
          open_browsers = 0, closed_browsers = 0\<rparr>)"
    by (simp add: v3_body_def app_url_def api_defs prim_defs env_defs)
  have e3: "raises ?E 1 (PrintLine (''Error: '' @ ''net::ERR_CONNECTION_REFUSED'')) = None"
      "raises ?E 1 (Screenshot ''verification/error.png'') =
         Some (Exception ''Target page has been closed'')"
      "raises ?E (1 + 1) BrowserClose = None"
    by (simp_all add: env_defs)
  have b4: "v4_body unreachable_env (start []) =
      (Inl (Exception ''net::ERR_CONNECTION_REFUSED''),
       \<lparr>trace = [Call (Goto ''http://localhost:5173'' (Some 60000))], files = [], ncalls = 1,
          open_browsers = 0, closed_browsers = 0\<rparr>)"
    by (simp add: v4_body_def app_url_def api_defs prim_defs env_defs)
  have e4: "raises unreachable_env 1 (PrintLine (''Error: '' @ ''net::ERR_CONNECTION_REFUSED'')) = None"
      "raises unreachable_env 1 (Screenshot ''verification/error.png'') = None"
      "raises unreachable_env (1 + 1) BrowserClose = None"
    by (simp_all add: env_defs)
  from diagnostic_capture_failure
         [of ?E "start []" "''net::ERR_CONNECTION_REFUSED''"
             "Exception ''Target page has been closed''"]
       diagnostic_capture_failure
         [of unreachable_env "start []" "''net::ERR_CONNECTION_REFUSED''" "Exception ''x''"]
       b3 e3 b4 e4
  show ?thesis by simp
qed

section \<open>Exit status\<close>

lemma exit_status_returns:
  "returns e p \<Longrightarrow> \<not> flush_fails e \<Longrightarrow> exit_status e (p e s) = 0"
  by (simp add: exit_status_def returns_unit)

lemma verify_navigation_returns:
  assumes "session_ok e" and "host_ok e" and "only_exceptions e"
  shows "returns e verify_navigation"
  unfolding verify_navigation_def nav_guarded_def nav_body_def nav_handler_def api_defs
  using assms
  by (intro returns_intros mild_intros; simp add: session_ok_def host_ok_def)

lemma settings_main_returns:
  assumes "session_ok e" and "host_ok e" and "only_exceptions e"
  shows "returns e settings_main"
  unfolding settings_main_def verify_settings_def settings_body_def settings_handler_def
    main_handler_def api_defs
  using assms
  by (intro returns_intros mild_intros mild_try_except returns_try_except;
      simp add: session_ok_def host_ok_def)

lemma run_v3_returns:
  assumes "session_ok e" and "host_ok e" and "only_exceptions e"
    and "\<forall>i. raises e i (Screenshot ''verification/error.png'') = None"
  shows "returns e run_v3"
  unfolding run_v3_def v3_guarded_def v3_body_def v3_handler_def api_defs
  using assms
  by (intro returns_intros mild_intros; simp add: session_ok_def host_ok_def)

lemma run_v4_returns:
  assumes "session_ok e" and "host_ok e" and "only_exceptions e"
    and "\<forall>i. raises e i (Screenshot ''verification/error.png'') = None"
  shows "returns e run_v4"
  unfolding run_v4_def v4_guarded_def v4_body_def v4_handler_def api_defs
  using assms
  by (intro returns_intros mild_intros; simp add: session_ok_def host_ok_def)

lemma run_v1_returns:
  assumes "\<forall>i c. raises e i c = None"
  shows "returns e run_v1"
  unfolding run_v1_def api_defs
  using assms
  by (intro returns_intros; simp)

lemma run_v2_returns:
  assumes "\<forall>i c. raises e i c = None"
  shows "returns e run_v2"
  unfolding run_v2_def api_defs
  using assms
  by (intro returns_intros; simp)

text \<open>
  C2.  Claim: every scenario exits with status 0 whether its steps completed or
  failed; no failure of a scenario leaves it as an unhandled exception.

  \<^verbatim>\<open>verify_mistakes.py\<close> and \<^verbatim>\<open>verify_mistakes_v2.py\<close> have no handler: when the
  application never shows the element that \<^verbatim>\<open>verify_mistakes_v2.py\<close> waits for, the
  timeout of the wait leaves \<^verbatim>\<open>run()\<close> and the process exits with status 1.  And the
  scripts that have a handler print in it: when standard output takes no line,
  \<^verbatim>\<open>verify_nav.py\<close> exits with status 1 although every call to the browser succeeds;
  when standard output cannot be flushed at exit, the status is 120.
\<close>

theorem run_v2_exit_status_counterexample:
  "exit_status
     (fail_on (WaitForSelector ''div.text-2xl'' (Some ''visible'') None)
        ''Timeout 30000ms exceeded.'')
     (run_v2
       (fail_on (WaitForSelector ''div.text-2xl'' (Some ''visible'') None)
          ''Timeout 30000ms exceeded.'')
       (start [])) = 1 \<and>
   exit_status no_stdout_env (verify_navigation no_stdout_env (start [])) = 1 \<and>
   exit_status (ok_env\<lparr>flush_fails := True\<rparr>)
     (verify_navigation (ok_env\<lparr>flush_fails := True\<rparr>) (start [])) = 120"
proof -
  have "exit_status
     (fail_on (WaitForSelector ''div.text-2xl'' (Some ''visible'') None)
        ''Timeout 30000ms exceeded.'')
     (run_v2
       (fail_on (WaitForSelector ''div.text-2xl'' (Some ''visible'') None)
          ''Timeout 30000ms exceeded.'')
       (start [])) = 1"
    by (simp add: exit_status_def run_v2_def app_url_def api_defs prim_defs ctl_defs env_defs)
  moreover have "exit_status no_stdout_env (verify_navigation no_stdout_env (start [])) = 1"
    by (simp add: exit_status_def verify_navigation_def nav_guarded_def nav_body_def
          nav_handler_def nav_moves_def app_url_def api_defs prim_defs ctl_defs env_defs)
  moreover have "exit_status (ok_env\<lparr>flush_fails := True\<rparr>)
     (verify_navigation (ok_env\<lparr>flush_fails := True\<rparr>) (start [])) = 120"
    by (simp add: exit_status_def)
  ultimately show ?thesis by (intro conjI)
qed

text \<open>C2, as amended: as long as the calls that set the session up and tear it down
  (starting Playwright, launching the browser, opening the context and the page,
  \<^verbatim>\<open>browser.close()\<close>, leaving Playwright) do not raise, no \<^verbatim>\<open>print\<close> and no
  \<^verbatim>\<open>time.sleep\<close> raises, nothing but \<^verbatim>\<open>Exception\<close>s is raised (no
  \<^verbatim>\<open>KeyboardInterrupt\<close>, no \<^verbatim>\<open>SystemExit\<close>) and standard output can be flushed at
  exit: \<^verbatim>\<open>verify_nav.py\<close> and \<^verbatim>\<open>verify_settings.py\<close> exit with status 0 whether or not
  a step of the scenario failed; \<^verbatim>\<open>verify_mistakes_v3.py\<close> and
  \<^verbatim>\<open>verify_mistakes_v4.py\<close> do so when, moreover, the diagnostic screenshot does not
  raise; \<^verbatim>\<open>verify_mistakes.py\<close> and \<^verbatim>\<open>verify_mistakes_v2.py\<close> exit with status 0 when
  no call raises.\<close>

theorem scenario_exit_status:
  assumes "session_ok e" and "host_ok e" and "only_exceptions e" and "\<not> flush_fails e"
  shows "exit_status e (verify_navigation e (start fs)) = 0 \<and>
    exit_status e (settings_main e (start fs)) = 0 \<and>
    ((\<forall>i. raises e i (Screenshot ''verification/error.png'') = None) \<longrightarrow>
       exit_status e (run_v3 e (start fs)) = 0 \<and> exit_status e (run_v4 e (start fs)) = 0) \<and>
    ((\<forall>i c. raises e i c = None) \<longrightarrow>
       exit_status e (run_v1 e (start fs)) = 0 \<and> exit_status e (run_v2 e (start fs)) = 0)"
  using assms
  by (simp add: exit_status_returns verify_navigation_returns settings_main_returns
        run_v3_returns run_v4_returns run_v1_returns run_v2_returns)

theorem scenario_exit_status_witness:
  "session_ok unreachable_env \<and> host_ok unreachable_env \<and>
   only_exceptions unreachable_env \<and> \<not> flush_fails unreachable_env \<and>
   (\<forall>i. raises unreachable_env i (Screenshot ''verification/error.png'') = None) \<and>
   fst (nav_body unreachable_env (start [])) = Inl (Exception ''net::ERR_CONNECTION_REFUSED'') \<and>
   exit_status unreachable_env (verify_navigation unreachable_env (start [])) = 0 \<and>
   exit_status unreachable_env (settings_main unreachable_env (start [])) = 0 \<and>
   exit_status unreachable_env (run_v3 unreachable_env (start [])) = 0 \<and>
   exit_status unreachable_env (run_v4 unreachable_env (start [])) = 0 \<and>
   session_ok ok_env \<and> host_ok ok_env \<and> only_exceptions ok_env \<and> \<not> flush_fails ok_env \<and>
   (\<forall>i c. raises ok_env i c = None) \<and>
   exit_status ok_env (run_v1 ok_env (start [])) = 0 \<and>
   exit_status ok_env (run_v2 ok_env (start [])) = 0"
proof -
  have su: "session_ok unreachable_env" "host_ok unreachable_env"
    "\<not> flush_fails unreachable_env"
    by (simp_all add: session_ok_def host_ok_def unreachable_env_def ok_env_def)
  have ou: "only_exceptions unreachable_env"
    by (simp add: only_exceptions_def is_exception_def unreachable_env_def ok_env_def
          split: call.split)
  have eu: "\<forall>i. raises unreachable_env i (Screenshot ''verification/error.png'') = None"
    by (simp add: unreachable_env_def ok_env_def)
  have nb: "fst (nav_body unreachable_env (start [])) =
      Inl (Exception ''net::ERR_CONNECTION_REFUSED'')"
    by (simp add: nav_body_def app_url_def api_defs prim_defs env_defs)
  have so: "session_ok ok_env" "host_ok ok_env" "\<not> flush_fails ok_env"
    by (simp_all add: session_ok_def host_ok_def ok_env_def)
  have oo: "only_exceptions ok_env"
    by (simp add: only_exceptions_def is_exception_def ok_env_def)
  have ao: "\<forall>i c. raises ok_env i c = None"
    by (simp add: ok_env_def)
  from scenario_exit_status [OF su(1) su(2) ou su(3), of "[]"]
    scenario_exit_status [OF so(1) so(2) oo so(3), of "[]"]
    su ou eu nb so oo ao
  show ?thesis by simp
qed

section \<open>Readiness waits\<close>






end
